theory Spec2Isabelle
  imports Main "HOL-Library.Word" "HOL-Library.Sublist"
begin

unbundle bit_operations_syntax

section \<open>Data model\<close>

subsection \<open>Errors\<close>

text \<open>
  Go's \<^verbatim>\<open>error\<close> is one interface type shared by the wrapper, the wrapped store, the
  option functions and the operating system.  An error value made by a collaborator is
  \<open>Ext e\<close>, with \<open>'e\<close> left open.  Every \<^verbatim>\<open>fmt.Errorf\<close> call of
  \<^verbatim>\<open>snapshotter.go\<close> has a constructor of its own, holding the operands of the call;
  the format string of each is given by \<open>Error\<close> below and the operand of \<^verbatim>\<open>%w\<close> by
  \<open>Unwrap\<close>.  \<open>PanicNilDirEntry\<close> stands for the nil dereference of a
  \<^verbatim>\<open>fs.DirEntry\<close> in the walk callback.
\<close>

datatype 'e error =
    Ext 'e
  | ErrStatSource string "'e error"
  | ErrGetMounts string "'e error"
  | ErrPrepare string "'e error"
  | ErrCopyCleanup "'e error" "'e error"
  | ErrCopy string string "'e error"
  | ErrSource "'e error"
  | ErrDestination "'e error"
  | ErrClearDst "'e error"
  | ErrNoWritableDir string
  | PanicNilDirEntry

text \<open>
  \<open>Error q m e\<close> is the text of \<^verbatim>\<open>e.Error()\<close>: \<open>q\<close> renders the verb \<^verbatim>\<open>%q\<close>
  (\<^verbatim>\<open>strconv.Quote\<close>) and \<open>m\<close> the message of a collaborator's error.
\<close>

fun Error :: "(string \<Rightarrow> string) \<Rightarrow> ('e \<Rightarrow> string) \<Rightarrow> 'e error \<Rightarrow> string" where
  "Error q m (Ext e) = m e"
| "Error q m (ErrStatSource sourceKey err) =
     ''stat source snapshot '' @ q sourceKey @ '': '' @ Error q m err"
| "Error q m (ErrGetMounts sourceKey err) =
     ''get mounts for source snapshot '' @ q sourceKey @ '': '' @ Error q m err"
| "Error q m (ErrPrepare key err) =
     ''prepare snapshot '' @ q key @ '': '' @ Error q m err"
| "Error q m (ErrCopyCleanup err removeErr) =
     ''copy writable layer: '' @ Error q m err @
     '' (cleanup also failed: '' @ Error q m removeErr @ '')''"
| "Error q m (ErrCopy sourceKey key err) =
     ''copy writable layer from '' @ q sourceKey @ '' to '' @ q key @ '': '' @ Error q m err"
| "Error q m (ErrSource err) = ''source: '' @ Error q m err"
| "Error q m (ErrDestination err) = ''destination: '' @ Error q m err"
| "Error q m (ErrClearDst err) = ''clear destination directory: '' @ Error q m err"
| "Error q m (ErrNoWritableDir types) =
     ''no writable directory found in mounts (types: '' @ types @ '')''"
| "Error q m PanicNilDirEntry =
     ''runtime error: invalid memory address or nil pointer dereference''"

text \<open>The operand of \<^verbatim>\<open>%w\<close>, as \<^verbatim>\<open>errors.Unwrap\<close> returns it.\<close>

fun Unwrap :: "'e error \<Rightarrow> 'e error option" where
  "Unwrap (ErrStatSource sourceKey err) = Some err"
| "Unwrap (ErrGetMounts sourceKey err) = Some err"
| "Unwrap (ErrPrepare key err) = Some err"
| "Unwrap (ErrCopyCleanup err removeErr) = Some err"
| "Unwrap (ErrCopy sourceKey key err) = Some err"
| "Unwrap (ErrSource err) = Some err"
| "Unwrap (ErrDestination err) = Some err"
| "Unwrap (ErrClearDst err) = Some err"
| "Unwrap e = None"

text \<open>
  \<open>errIs p e\<close> is \<^verbatim>\<open>errors.Is(e, target)\<close> for a target that the collaborators'
  errors match as \<open>p\<close> says: the chain of \<^verbatim>\<open>%w\<close> operands is followed down to the
  collaborator's error.
\<close>

fun errIs :: "('e \<Rightarrow> bool) \<Rightarrow> 'e error \<Rightarrow> bool" where
  "errIs p (Ext e) = p e"
| "errIs p (ErrStatSource sourceKey err) = errIs p err"
| "errIs p (ErrGetMounts sourceKey err) = errIs p err"
| "errIs p (ErrPrepare key err) = errIs p err"
| "errIs p (ErrCopyCleanup err removeErr) = errIs p err"
| "errIs p (ErrCopy sourceKey key err) = errIs p err"
| "errIs p (ErrSource err) = errIs p err"
| "errIs p (ErrDestination err) = errIs p err"
| "errIs p (ErrClearDst err) = errIs p err"
| "errIs p (ErrNoWritableDir types) = False"
| "errIs p PanicNilDirEntry = False"

subsection \<open>Snapshot metadata and mounts\<close>

text \<open>\<^verbatim>\<open>snapshots.Kind\<close>, \<^verbatim>\<open>snapshots.Info\<close> and \<^verbatim>\<open>mount.Mount\<close> of containerd.\<close>

datatype Kind = KindUnknown | KindView | KindActive | KindCommitted

record Info =
  Kind :: Kind
  Name :: string
  Parent :: string
  Labels :: "string \<rightharpoonup> string"
  Created :: int
  Updated :: int

text \<open>The zero value \<^verbatim>\<open>snapshots.Info{}\<close>; a nil map reads as the empty map.\<close>

definition Info_zero :: Info where
  "Info_zero = \<lparr>Kind = KindUnknown, Name = [], Parent = [], Labels = Map.empty,
                 Created = 0, Updated = 0\<rparr>"

record Mount =
  Type :: string
  Source :: string
  Options :: "string list"

text \<open>
  \<^verbatim>\<open>snapshots.Opt\<close> is \<^verbatim>\<open>func(info *Info) error\<close>: the function may change the
  info it is given and returns an error or nil.
\<close>

type_synonym 'e Opt = "Info \<Rightarrow> 'e error option \<times> Info"

definition LabelCloneSource :: string where
  "LabelCloneSource = ''containerd.io/snapshot/clone-source''"

section \<open>The writable-layer locator\<close>

text \<open>\<^verbatim>\<open>strings.CutPrefix\<close> and \<^verbatim>\<open>strings.Join\<close> of the Go library, on byte strings.\<close>

definition CutPrefix :: "string \<Rightarrow> string \<Rightarrow> string \<times> bool" where
  "CutPrefix s pre =
     (if take (length pre) s = pre then (drop (length pre) s, True) else (s, False))"

fun strings_Join :: "string list \<Rightarrow> string \<Rightarrow> string" where
  "strings_Join [] sep = []"
| "strings_Join [x] sep = x"
| "strings_Join (x # y # ys) sep = x @ sep @ strings_Join (y # ys) sep"

definition joinMountTypes :: "Mount list \<Rightarrow> string" where
  "joinMountTypes mounts = strings_Join (map Type mounts) '', ''"

text \<open>The loop over \<^verbatim>\<open>m.Options\<close> inside the \<^verbatim>\<open>"overlay"\<close> case.\<close>

fun getWritableDir_options :: "string list \<Rightarrow> string option" where
  "getWritableDir_options [] = None"
| "getWritableDir_options (opt # opts) =
     (case CutPrefix opt ''upperdir='' of
        (val, True) \<Rightarrow> Some val
      | (val, False) \<Rightarrow> getWritableDir_options opts)"

text \<open>The loop over \<^verbatim>\<open>mounts\<close>; \<open>None\<close> when the loop runs to its end.\<close>

fun getWritableDir_mounts :: "Mount list \<Rightarrow> string option" where
  "getWritableDir_mounts [] = None"
| "getWritableDir_mounts (m # ms) =
     (if Type m = ''overlay'' then
        (case getWritableDir_options (Options m) of
           Some val \<Rightarrow> Some val
         | None \<Rightarrow> getWritableDir_mounts ms)
      else if Type m = ''bind'' then Some (Source m)
      else getWritableDir_mounts ms)"

definition getWritableDir :: "Mount list \<Rightarrow> 'e error + string" where
  "getWritableDir mounts =
     (case getWritableDir_mounts mounts of
        Some val \<Rightarrow> Inr val
      | None \<Rightarrow> Inl (ErrNoWritableDir (joinMountTypes mounts)))"

section \<open>Collaborators: the wrapped store and the operating system\<close>

text \<open>
  \<^verbatim>\<open>fs.FileMode\<close> is a \<^verbatim>\<open>uint32\<close>; \<^verbatim>\<open>ModeDir\<close> is bit 31, \<^verbatim>\<open>ModeSymlink\<close> bit 27
  and \<^verbatim>\<open>ModePerm\<close> the nine permission bits \<^verbatim>\<open>0777\<close>.
\<close>

type_synonym FileMode = "32 word"

definition ModeDir :: FileMode where
  "ModeDir = push_bit 31 1"

definition ModeSymlink :: FileMode where
  "ModeSymlink = push_bit 27 1"

definition ModePerm :: FileMode where
  "ModePerm = 511"

definition Perm :: "FileMode \<Rightarrow> FileMode" where
  "Perm m = m AND ModePerm"

text \<open>The flags of \<^verbatim>\<open>os.OpenFile\<close> on Linux, the only build target.\<close>

definition O_WRONLY :: int where "O_WRONLY = 1"
definition O_CREATE :: int where "O_CREATE = 64"
definition O_TRUNC :: int where "O_TRUNC = 512"

text \<open>
  \<^verbatim>\<open>fs.FileInfo\<close> (only \<^verbatim>\<open>Mode()\<close> is read) and \<^verbatim>\<open>fs.DirEntry\<close>, an interface value:
  a record of its methods.  \<^verbatim>\<open>Info()\<close> asks the file system, so it runs on the
  world \<open>'w\<close>.
\<close>

record FileInfo =
  Mode :: FileMode

record ('e, 'w) DirEntry =
  d_Name :: string
  d_IsDir :: bool
  d_Type :: FileMode
  d_Info :: "'w \<Rightarrow> ('e error + FileInfo) \<times> 'w"

text \<open>
  The part of \<^verbatim>\<open>snapshots.Snapshotter\<close> that the wrapper calls itself (every other
  method is reached through the embedded field and is not intercepted).  Each method
  runs on the world \<open>'w\<close> (the store's metadata and the file system) and returns the
  new world; the \<^verbatim>\<open>context.Context\<close> argument is passed through unchanged and is left
  out.
\<close>

record ('e, 'w) Snapshotter =
  Stat :: "string \<Rightarrow> 'w \<Rightarrow> ('e error + Info) \<times> 'w"
  Mounts :: "string \<Rightarrow> 'w \<Rightarrow> ('e error + Mount list) \<times> 'w"
  Prepare :: "string \<Rightarrow> string \<Rightarrow> 'e Opt list \<Rightarrow> 'w \<Rightarrow> ('e error + Mount list) \<times> 'w"
  Remove :: "string \<Rightarrow> 'w \<Rightarrow> 'e error option \<times> 'w"

text \<open>
  The functions of the Go library that the replicator calls: \<^verbatim>\<open>os.ReadDir\<close> (which
  may return the entries read so far together with an error), \<^verbatim>\<open>os.RemoveAll\<close>,
  \<^verbatim>\<open>os.Lstat\<close> (already turned into a directory entry, as \<^verbatim>\<open>filepath.WalkDir\<close> does
  with \<^verbatim>\<open>fs.FileInfoToDirEntry\<close>), \<^verbatim>\<open>os.Readlink\<close>, \<^verbatim>\<open>os.Symlink\<close>,
  \<^verbatim>\<open>os.MkdirAll\<close>, \<^verbatim>\<open>os.Open\<close>, \<^verbatim>\<open>os.OpenFile\<close>, \<^verbatim>\<open>(*os.File).Close\<close>,
  \<^verbatim>\<open>io.Copy\<close> (the byte count is dropped by the caller), \<^verbatim>\<open>os.IsNotExist\<close>,
  \<^verbatim>\<open>filepath.Join\<close> and \<^verbatim>\<open>filepath.Rel\<close>.  An open file is a number.
\<close>

record ('e, 'w) OS =
  os_ReadDir :: "string \<Rightarrow> 'w \<Rightarrow> (('e, 'w) DirEntry list \<times> 'e error option) \<times> 'w"
  os_RemoveAll :: "string \<Rightarrow> 'w \<Rightarrow> 'e error option \<times> 'w"
  os_Lstat :: "string \<Rightarrow> 'w \<Rightarrow> ('e error + ('e, 'w) DirEntry) \<times> 'w"
  os_Readlink :: "string \<Rightarrow> 'w \<Rightarrow> ('e error + string) \<times> 'w"
  os_Symlink :: "string \<Rightarrow> string \<Rightarrow> 'w \<Rightarrow> 'e error option \<times> 'w"
  os_MkdirAll :: "string \<Rightarrow> FileMode \<Rightarrow> 'w \<Rightarrow> 'e error option \<times> 'w"
  os_Open :: "string \<Rightarrow> 'w \<Rightarrow> ('e error + nat) \<times> 'w"
  os_OpenFile :: "string \<Rightarrow> int \<Rightarrow> FileMode \<Rightarrow> 'w \<Rightarrow> ('e error + nat) \<times> 'w"
  file_Close :: "nat \<Rightarrow> 'w \<Rightarrow> 'e error option \<times> 'w"
  io_Copy :: "nat \<Rightarrow> nat \<Rightarrow> 'w \<Rightarrow> 'e error option \<times> 'w"
  os_IsNotExist :: "'e error \<Rightarrow> bool"
  filepath_Join :: "string \<Rightarrow> string \<Rightarrow> string"
  filepath_Rel :: "string \<Rightarrow> string \<Rightarrow> 'e error + string"

subsection \<open>The record of calls\<close>

text \<open>
  The state that the wrapper's code runs on is the world together with the list of the
  calls made to the collaborators so far, oldest first.  The list is not in the source:
  it is what lets a theorem say which calls were made, with which arguments and in
  which order.  \<open>invoke c f\<close> runs the collaborator's function \<open>f\<close> on the world and
  appends \<open>c\<close>.
\<close>

datatype 'e call =
    CallStat string
  | CallMounts string
  | CallPrepare string string "'e Opt list"
  | CallRemove string
  | CallReadDir string
  | CallRemoveAll string
  | CallLstat string
  | CallInfo string
  | CallReadlink string
  | CallSymlink string string
  | CallMkdirAll string FileMode
  | CallOpen string
  | CallOpenFile string int FileMode
  | CallCopy nat nat
  | CallClose nat

type_synonym ('e, 'w) state = "'w \<times> 'e call list"

definition invoke :: "'e call \<Rightarrow> ('w \<Rightarrow> 'a \<times> 'w) \<Rightarrow> ('e, 'w) state \<Rightarrow> 'a \<times> ('e, 'w) state" where
  "invoke c f st = (case f (fst st) of (r, w') \<Rightarrow> (r, (w', snd st @ [c])))"

section \<open>The directory replicator\<close>

text \<open>The loop of \<^verbatim>\<open>clearDir\<close> over the entries read.\<close>

fun clearDir_entries ::
  "('e, 'w) OS \<Rightarrow> string \<Rightarrow> ('e, 'w) DirEntry list \<Rightarrow> ('e, 'w) state \<Rightarrow>
     'e error option \<times> ('e, 'w) state" where
  "clearDir_entries os dir [] st = (None, st)"
| "clearDir_entries os dir (e # es) st =
     (case invoke (CallRemoveAll (filepath_Join os dir (d_Name e)))
             (os_RemoveAll os (filepath_Join os dir (d_Name e))) st of
        (Some err, st1) \<Rightarrow> (Some err, st1)
      | (None, st1) \<Rightarrow> clearDir_entries os dir es st1)"

definition clearDir ::
  "('e, 'w) OS \<Rightarrow> string \<Rightarrow> ('e, 'w) state \<Rightarrow> 'e error option \<times> ('e, 'w) state" where
  "clearDir os dir st =
     (case invoke (CallReadDir dir) (os_ReadDir os dir) st of
        ((entries, Some err), st1) \<Rightarrow>
          if os_IsNotExist os err then (None, st1) else (Some err, st1)
      | ((entries, None), st1) \<Rightarrow> clearDir_entries os dir entries st1)"

definition copySymlink ::
  "('e, 'w) OS \<Rightarrow> string \<Rightarrow> string \<Rightarrow> ('e, 'w) state \<Rightarrow> 'e error option \<times> ('e, 'w) state" where
  "copySymlink os src dst st =
     (case invoke (CallReadlink src) (os_Readlink os src) st of
        (Inl err, st1) \<Rightarrow> (Some err, st1)
      | (Inr target, st1) \<Rightarrow> invoke (CallSymlink target dst) (os_Symlink os target dst) st1)"

text \<open>
  \<^verbatim>\<open>copyFile\<close>: the deferred calls run when the function returns, last deferred
  first, so \<^verbatim>\<open>out\<close> is closed before \<^verbatim>\<open>in\<close>; the error of closing \<^verbatim>\<open>out\<close> is
  returned when the copy itself gave none, and the error of closing \<^verbatim>\<open>in\<close> is dropped.
\<close>

definition copyFile ::
  "('e, 'w) OS \<Rightarrow> string \<Rightarrow> string \<Rightarrow> FileMode \<Rightarrow> ('e, 'w) state \<Rightarrow>
     'e error option \<times> ('e, 'w) state" where
  "copyFile os src dst mode st =
     (case invoke (CallOpen src) (os_Open os src) st of
        (Inl err, st1) \<Rightarrow> (Some err, st1)
      | (Inr inp, st1) \<Rightarrow>
          (case invoke (CallOpenFile dst (O_CREATE OR O_WRONLY OR O_TRUNC) mode)
                  (os_OpenFile os dst (O_CREATE OR O_WRONLY OR O_TRUNC) mode) st1 of
             (Inl err, st2) \<Rightarrow>
               (case invoke (CallClose inp) (file_Close os inp) st2 of
                  (_, st3) \<Rightarrow> (Some err, st3))
           | (Inr out, st2) \<Rightarrow>
               (case invoke (CallCopy out inp) (io_Copy os out inp) st2 of
                  (err, st3) \<Rightarrow>
                    (case invoke (CallClose out) (file_Close os out) st3 of
                       (cerr, st4) \<Rightarrow>
                         (case invoke (CallClose inp) (file_Close os inp) st4 of
                            (_, st5) \<Rightarrow>
                              ((case err of Some e \<Rightarrow> Some e | None \<Rightarrow> cerr), st5))))))"

text \<open>
  The function literal that \<^verbatim>\<open>copyDir\<close> hands to \<^verbatim>\<open>filepath.WalkDir\<close>.  The entry
  \<open>d\<close> is nil (\<open>None\<close>) when the walk could not stat its root; the walk then passes
  an error, and the function returns it before it looks at \<open>d\<close>.
\<close>

definition copyDir_fn ::
  "('e, 'w) OS \<Rightarrow> string \<Rightarrow> string \<Rightarrow> string \<Rightarrow> ('e, 'w) DirEntry option \<Rightarrow>
     'e error option \<Rightarrow> ('e, 'w) state \<Rightarrow> 'e error option \<times> ('e, 'w) state" where
  "copyDir_fn os srcDir dstDir path d err st =
     (case err of
        Some e \<Rightarrow> (Some e, st)
      | None \<Rightarrow>
          (case filepath_Rel os srcDir path of
             Inl e \<Rightarrow> (Some e, st)
           | Inr rel \<Rightarrow>
               if rel = ''.'' then (None, st)
               else
                 (case d of
                    None \<Rightarrow> (Some PanicNilDirEntry, st)
                  | Some de \<Rightarrow>
                      if d_Type de AND ModeSymlink \<noteq> 0 then
                        copySymlink os path (filepath_Join os dstDir rel) st
                      else if d_IsDir de then
                        (case invoke (CallInfo path) (d_Info de) st of
                           (Inl e, st1) \<Rightarrow> (Some e, st1)
                         | (Inr info, st1) \<Rightarrow>
                             invoke (CallMkdirAll (filepath_Join os dstDir rel) (Perm (Mode info)))
                               (os_MkdirAll os (filepath_Join os dstDir rel) (Perm (Mode info))) st1)
                      else
                        (case invoke (CallInfo path) (d_Info de) st of
                           (Inl e, st1) \<Rightarrow> (Some e, st1)
                         | (Inr info, st1) \<Rightarrow>
                             copyFile os path (filepath_Join os dstDir rel) (Perm (Mode info)) st1))))"

subsection \<open>The walk\<close>

text \<open>
  \<^verbatim>\<open>filepath.WalkDir\<close> of the Go library, as its source reads: \<^verbatim>\<open>walkDir\<close> calls the
  function on the entry, stops unless the entry is a directory, reads the directory
  (calling the function a second time when reading fails, and going on with the entries
  read so far when it returns nil) and walks every entry in the order read.  An error
  stops the walk.  The sentinels \<^verbatim>\<open>SkipDir\<close> and \<^verbatim>\<open>SkipAll\<close> are left out: the function
  of \<^verbatim>\<open>copyDir\<close> returns only errors it got from the operating system, never one of
  them.

  The file system is the collaborator's, and a directory tree may be changed by the
  very copy that walks it, so nothing bounds the depth of the recursion: the walk takes
  fuel, one unit for each level of nesting, and \<open>None\<close> says the fuel ran out.
\<close>

type_synonym ('e, 'w) WalkDirFunc =
  "string \<Rightarrow> ('e, 'w) DirEntry option \<Rightarrow> 'e error option \<Rightarrow> ('e, 'w) state \<Rightarrow>
     'e error option \<times> ('e, 'w) state"

text \<open>The loop over \<^verbatim>\<open>dirs\<close>; \<open>walk\<close> is the recursive call.\<close>

fun walkDir_entries ::
  "(string \<Rightarrow> ('e, 'w) DirEntry \<Rightarrow> ('e, 'w) state \<Rightarrow> ('e error option \<times> ('e, 'w) state) option) \<Rightarrow>
     ('e, 'w) OS \<Rightarrow> string \<Rightarrow> ('e, 'w) DirEntry list \<Rightarrow> ('e, 'w) state \<Rightarrow>
     ('e error option \<times> ('e, 'w) state) option" where
  "walkDir_entries walk os path [] st = Some (None, st)"
| "walkDir_entries walk os path (d1 # ds) st =
     (case walk (filepath_Join os path (d_Name d1)) d1 st of
        None \<Rightarrow> None
      | Some (Some err, st1) \<Rightarrow> Some (Some err, st1)
      | Some (None, st1) \<Rightarrow> walkDir_entries walk os path ds st1)"

fun walkDir ::
  "nat \<Rightarrow> ('e, 'w) OS \<Rightarrow> ('e, 'w) WalkDirFunc \<Rightarrow> string \<Rightarrow> ('e, 'w) DirEntry \<Rightarrow>
     ('e, 'w) state \<Rightarrow> ('e error option \<times> ('e, 'w) state) option" where
  "walkDir 0 os fn path d st = None"
| "walkDir (Suc n) os fn path d st =
     (case fn path (Some d) None st of
        (Some err, st1) \<Rightarrow> Some (Some err, st1)
      | (None, st1) \<Rightarrow>
          if \<not> d_IsDir d then Some (None, st1)
          else
            (case invoke (CallReadDir path) (os_ReadDir os path) st1 of
               ((dirs, Some err), st2) \<Rightarrow>
                 (case fn path (Some d) (Some err) st2 of
                    (Some err', st3) \<Rightarrow> Some (Some err', st3)
                  | (None, st3) \<Rightarrow> walkDir_entries (walkDir n os fn) os path dirs st3)
             | ((dirs, None), st2) \<Rightarrow> walkDir_entries (walkDir n os fn) os path dirs st2))"

definition WalkDir ::
  "nat \<Rightarrow> ('e, 'w) OS \<Rightarrow> string \<Rightarrow> ('e, 'w) WalkDirFunc \<Rightarrow> ('e, 'w) state \<Rightarrow>
     ('e error option \<times> ('e, 'w) state) option" where
  "WalkDir n os root fn st =
     (case invoke (CallLstat root) (os_Lstat os root) st of
        (Inl err, st1) \<Rightarrow> Some (fn root None (Some err) st1)
      | (Inr d, st1) \<Rightarrow> walkDir n os fn root d st1)"

definition copyDir ::
  "nat \<Rightarrow> ('e, 'w) OS \<Rightarrow> string \<Rightarrow> string \<Rightarrow> ('e, 'w) state \<Rightarrow>
     ('e error option \<times> ('e, 'w) state) option" where
  "copyDir n os srcDir dstDir st = WalkDir n os srcDir (copyDir_fn os srcDir dstDir) st"

definition copyWritableLayer ::
  "nat \<Rightarrow> ('e, 'w) OS \<Rightarrow> Mount list \<Rightarrow> Mount list \<Rightarrow> ('e, 'w) state \<Rightarrow>
     ('e error option \<times> ('e, 'w) state) option" where
  "copyWritableLayer n os srcMounts dstMounts st =
     (case getWritableDir srcMounts of
        Inl err \<Rightarrow> Some (Some (ErrSource err), st)
      | Inr srcDir \<Rightarrow>
          (case getWritableDir dstMounts of
             Inl err \<Rightarrow> Some (Some (ErrDestination err), st)
           | Inr dstDir \<Rightarrow>
               (case clearDir os dstDir st of
                  (Some err, st1) \<Rightarrow> Some (Some (ErrClearDst err), st1)
                | (None, st1) \<Rightarrow> copyDir n os srcDir dstDir st1)))"

section \<open>The clone-aware prepare\<close>

text \<open>
  The loop \<^verbatim>\<open>for _, opt := range opts\<close>, which stands in \<^verbatim>\<open>Prepare\<close> and in the
  function that \<^verbatim>\<open>withoutLabel\<close> builds: the options are applied in order to the same
  info, and the first error is returned at once, with the info as changed so far.
\<close>

fun applyOpts :: "'e Opt list \<Rightarrow> Info \<Rightarrow> 'e error option \<times> Info" where
  "applyOpts [] info = (None, info)"
| "applyOpts (opt # opts) info =
     (case opt info of
        (Some err, info1) \<Rightarrow> (Some err, info1)
      | (None, info1) \<Rightarrow> applyOpts opts info1)"

definition withoutLabel :: "'e Opt list \<Rightarrow> string \<Rightarrow> 'e Opt list" where
  "withoutLabel opts label =
     [\<lambda>info. case applyOpts opts info of
               (Some err, info1) \<Rightarrow> (Some err, info1)
             | (None, info1) \<Rightarrow> (None, info1\<lparr>Labels := (Labels info1)(label := None)\<rparr>)]"

definition clonePrepare ::
  "nat \<Rightarrow> ('e, 'w) Snapshotter \<Rightarrow> ('e, 'w) OS \<Rightarrow> string \<Rightarrow> string \<Rightarrow> 'e Opt list \<Rightarrow>
     ('e, 'w) state \<Rightarrow> (('e error + Mount list) \<times> ('e, 'w) state) option" where
  "clonePrepare n s os key sourceKey opts st =
     (case invoke (CallStat sourceKey) (Stat s sourceKey) st of
        (Inl err, st1) \<Rightarrow> Some (Inl (ErrStatSource sourceKey err), st1)
      | (Inr sourceInfo, st1) \<Rightarrow>
          (case invoke (CallMounts sourceKey) (Mounts s sourceKey) st1 of
             (Inl err, st2) \<Rightarrow> Some (Inl (ErrGetMounts sourceKey err), st2)
           | (Inr sourceMounts, st2) \<Rightarrow>
               (case invoke
                       (CallPrepare key (Parent sourceInfo) (withoutLabel opts LabelCloneSource))
                       (Prepare s key (Parent sourceInfo) (withoutLabel opts LabelCloneSource))
                       st2 of
                  (Inl err, st3) \<Rightarrow> Some (Inl (ErrPrepare key err), st3)
                | (Inr mounts, st3) \<Rightarrow>
                    (case copyWritableLayer n os sourceMounts mounts st3 of
                       None \<Rightarrow> None
                     | Some (Some err, st4) \<Rightarrow>
                         (case invoke (CallRemove key) (Remove s key) st4 of
                            (Some removeErr, st5) \<Rightarrow>
                              Some (Inl (ErrCopyCleanup err removeErr), st5)
                          | (None, st5) \<Rightarrow> Some (Inl (ErrCopy sourceKey key err), st5))
                     | Some (None, st4) \<Rightarrow> Some (Inr mounts, st4)))))"

text \<open>
  \<^verbatim>\<open>(*CloneSnapshotter).Prepare\<close>.  The wrapped store is the embedded field
  \<^verbatim>\<open>s.Snapshotter\<close>; the operating system and the fuel of the walk are arguments here.
\<close>

definition CloneSnapshotter_Prepare ::
  "nat \<Rightarrow> ('e, 'w) Snapshotter \<Rightarrow> ('e, 'w) OS \<Rightarrow> string \<Rightarrow> string \<Rightarrow> 'e Opt list \<Rightarrow>
     ('e, 'w) state \<Rightarrow> (('e error + Mount list) \<times> ('e, 'w) state) option" where
  "CloneSnapshotter_Prepare n s os key parent opts st =
     (case applyOpts opts Info_zero of
        (Some err, info) \<Rightarrow> Some (Inl err, st)
      | (None, info) \<Rightarrow>
          (case Labels info LabelCloneSource of
             None \<Rightarrow> Some (invoke (CallPrepare key parent opts) (Prepare s key parent opts) st)
           | Some sourceKey \<Rightarrow> clonePrepare n s os key sourceKey opts st))"

section \<open>The locator as the specification words it\<close>

text \<open>
  The specification's contract of the locator, word for word: an entry qualifies when it
  is of overlay type and has an option with the prefix \<^verbatim>\<open>upperdir=\<close> (its path is the
  rest of the first such option) or when it is of bind type (its path is the source);
  the first qualifying entry wins.
\<close>

definition getWritableDir_spec_entry :: "Mount \<Rightarrow> string option" where
  "getWritableDir_spec_entry m =
     (if Type m = ''overlay'' then
        map_option (drop (length ''upperdir='')) (find (prefix ''upperdir='') (Options m))
      else if Type m = ''bind'' then Some (Source m)
      else None)"

definition getWritableDir_spec :: "Mount list \<Rightarrow> string option" where
  "getWritableDir_spec mounts =
     (case find (\<lambda>m. getWritableDir_spec_entry m \<noteq> None) mounts of
        None \<Rightarrow> None
      | Some m \<Rightarrow> getWritableDir_spec_entry m)"

section \<open>Reading the record of calls\<close>

text \<open>
  \<open>grows P st st'\<close>: the state \<open>st'\<close> has the calls of \<open>st\<close> followed by new calls
  that all satisfy \<open>P\<close>.  \<open>store_call\<close> holds of the calls to the wrapped store,
  \<open>copy_call\<close> of the calls that the copy walk may make (every call to the operating
  system but \<^verbatim>\<open>os.RemoveAll\<close>).
\<close>

definition grows :: "('e call \<Rightarrow> bool) \<Rightarrow> ('e, 'w) state \<Rightarrow> ('e, 'w) state \<Rightarrow> bool" where
  "grows P st st' = (\<exists>new. snd st' = snd st @ new \<and> list_all P new)"

fun store_call :: "'e call \<Rightarrow> bool" where
  "store_call (CallStat k) = True"
| "store_call (CallMounts k) = True"
| "store_call (CallPrepare k p opts) = True"
| "store_call (CallRemove k) = True"
| "store_call c = False"

fun copy_call :: "'e call \<Rightarrow> bool" where
  "copy_call (CallStat k) = False"
| "copy_call (CallMounts k) = False"
| "copy_call (CallPrepare k p opts) = False"
| "copy_call (CallRemove k) = False"
| "copy_call (CallRemoveAll p) = False"
| "copy_call c = True"

section \<open>Example collaborators\<close>

text \<open>
  A store and an operating system to run the wrapper on: concrete inputs for the
  examples below, not part of the wrapper.  The world holds the store's snapshots (key,
  info, mounts), a file system as a list of absolute paths with their nodes, and the
  paths of the files opened so far.  The file system is a small one: paths are compared
  as strings, a directory lists its entries in the order stored, and a symbolic link is
  never followed.  The store keeps the writable directory of the
  snapshot \<open>k\<close> at \<open>/k\<close> and resolves the options of a prepare on the zero info,
  as containerd's stores do; the mounts it hands out for a new snapshot and whether its
  remove fails are parameters.
\<close>

datatype demo_node = DirNode FileMode | FileNode FileMode string | LinkNode string

record demo_world =
  snaps :: "(string \<times> Info \<times> Mount list) list"
  files :: "(string \<times> demo_node) list"
  handles :: "string list"

fun strip_prefix :: "string \<Rightarrow> string \<Rightarrow> string option" where
  "strip_prefix [] s = Some s"
| "strip_prefix (p # ps) [] = None"
| "strip_prefix (p # ps) (c # cs) = (if p = c then strip_prefix ps cs else None)"

definition child_name :: "string \<Rightarrow> string \<Rightarrow> string option" where
  "child_name dir p =
     (case strip_prefix (dir @ ''/'') p of
        None \<Rightarrow> None
      | Some name \<Rightarrow> if name \<noteq> [] \<and> CHR ''/'' \<notin> set name then Some name else None)"

definition node_mode :: "demo_node \<Rightarrow> FileMode" where
  "node_mode nd = (case nd of DirNode m \<Rightarrow> ModeDir OR m | FileNode m c \<Rightarrow> m | LinkNode t \<Rightarrow> ModeSymlink OR 511)"

definition demo_info :: "string \<Rightarrow> demo_world \<Rightarrow> (string error + FileInfo) \<times> demo_world" where
  "demo_info p w =
     (case map_of (files w) p of
        None \<Rightarrow> (Inl (Ext ''no such file or directory''), w)
      | Some nd \<Rightarrow> (Inr \<lparr>Mode = node_mode nd\<rparr>, w))"

definition demo_entry :: "string \<Rightarrow> string \<Rightarrow> demo_node \<Rightarrow> (string, demo_world) DirEntry" where
  "demo_entry p name nd =
     \<lparr>d_Name = name,
      d_IsDir = (case nd of DirNode m \<Rightarrow> True | _ \<Rightarrow> False),
      d_Type = node_mode nd AND (ModeDir OR ModeSymlink),
      d_Info = demo_info p\<rparr>"

fun demo_children :: "string \<Rightarrow> (string \<times> demo_node) list \<Rightarrow> (string, demo_world) DirEntry list" where
  "demo_children dir [] = []"
| "demo_children dir ((p, nd) # fs) =
     (case child_name dir p of
        None \<Rightarrow> demo_children dir fs
      | Some name \<Rightarrow> demo_entry p name nd # demo_children dir fs)"

definition fs_put :: "string \<Rightarrow> demo_node \<Rightarrow> (string \<times> demo_node) list \<Rightarrow> (string \<times> demo_node) list" where
  "fs_put p nd fs = filter (\<lambda>(q, _). q \<noteq> p) fs @ [(p, nd)]"

definition parent_dir :: "string \<Rightarrow> string" where
  "parent_dir p = rev (drop 1 (dropWhile (\<lambda>c. c \<noteq> CHR ''/'') (rev p)))"

definition parent_exists :: "string \<Rightarrow> (string \<times> demo_node) list \<Rightarrow> bool" where
  "parent_exists p fs =
     (case map_of fs (parent_dir p) of
        Some (DirNode m) \<Rightarrow> True
      | Some _ \<Rightarrow> False
      | None \<Rightarrow> parent_dir p = [])"

fun path_prefixes :: "string \<Rightarrow> string \<Rightarrow> string list" where
  "path_prefixes acc [] = [acc]"
| "path_prefixes acc (c # cs) =
     (if c = CHR ''/'' \<and> acc \<noteq> [] then acc # path_prefixes (acc @ [c]) cs
      else path_prefixes (acc @ [c]) cs)"

fun mkdir_all ::
  "string list \<Rightarrow> FileMode \<Rightarrow> (string \<times> demo_node) list \<Rightarrow>
     string error option \<times> (string \<times> demo_node) list" where
  "mkdir_all [] m fs = (None, fs)"
| "mkdir_all (q # qs) m fs =
     (case map_of fs q of
        Some (DirNode m') \<Rightarrow> mkdir_all qs m fs
      | Some _ \<Rightarrow> (Some (Ext ''not a directory''), fs)
      | None \<Rightarrow> mkdir_all qs m (fs_put q (DirNode m) fs))"

definition demo_os :: "(string, demo_world) OS" where
  "demo_os =
     \<lparr>os_ReadDir = (\<lambda>dir w.
        case map_of (files w) dir of
          Some (DirNode m) \<Rightarrow> ((demo_children dir (files w), None), w)
        | Some _ \<Rightarrow> (([], Some (Ext ''not a directory'')), w)
        | None \<Rightarrow> (([], Some (Ext ''no such file or directory'')), w)),
      os_RemoveAll = (\<lambda>p w.
        (None, w\<lparr>files := filter (\<lambda>(q, _). q \<noteq> p \<and> strip_prefix (p @ ''/'') q = None) (files w)\<rparr>)),
      os_Lstat = (\<lambda>p w.
        case map_of (files w) p of
          None \<Rightarrow> (Inl (Ext ''no such file or directory''), w)
        | Some nd \<Rightarrow> (Inr (demo_entry p p nd), w)),
      os_Readlink = (\<lambda>p w.
        case map_of (files w) p of
          Some (LinkNode t) \<Rightarrow> (Inr t, w)
        | Some _ \<Rightarrow> (Inl (Ext ''invalid argument''), w)
        | None \<Rightarrow> (Inl (Ext ''no such file or directory''), w)),
      os_Symlink = (\<lambda>t p w.
        case map_of (files w) p of
          Some _ \<Rightarrow> (Some (Ext ''file exists''), w)
        | None \<Rightarrow>
            if parent_exists p (files w)
            then (None, w\<lparr>files := fs_put p (LinkNode t) (files w)\<rparr>)
            else (Some (Ext ''no such file or directory''), w)),
      os_MkdirAll = (\<lambda>p m w.
        case mkdir_all (path_prefixes [] p) m (files w) of
          (err, fs) \<Rightarrow> (err, w\<lparr>files := fs\<rparr>)),
      os_Open = (\<lambda>p w.
        case map_of (files w) p of
          Some (FileNode m c) \<Rightarrow> (Inr (length (handles w)), w\<lparr>handles := handles w @ [p]\<rparr>)
        | Some _ \<Rightarrow> (Inl (Ext ''is a directory''), w)
        | None \<Rightarrow> (Inl (Ext ''no such file or directory''), w)),
      os_OpenFile = (\<lambda>p flags m w.
        case map_of (files w) p of
          Some (DirNode m') \<Rightarrow> (Inl (Ext ''is a directory''), w)
        | Some (LinkNode t) \<Rightarrow> (Inl (Ext ''too many levels of symbolic links''), w)
        | Some (FileNode m' c) \<Rightarrow>
            (Inr (length (handles w)),
             w\<lparr>files := fs_put p (FileNode m' []) (files w), handles := handles w @ [p]\<rparr>)
        | None \<Rightarrow>
            if parent_exists p (files w)
            then (Inr (length (handles w)),
                  w\<lparr>files := fs_put p (FileNode m []) (files w), handles := handles w @ [p]\<rparr>)
            else (Inl (Ext ''no such file or directory''), w)),
      file_Close = (\<lambda>h w. (None, w)),
      io_Copy = (\<lambda>out inp w.
        if out < length (handles w) \<and> inp < length (handles w) then
          (case (map_of (files w) (handles w ! inp), map_of (files w) (handles w ! out)) of
             (Some (FileNode m c), Some (FileNode m' c')) \<Rightarrow>
               (None, w\<lparr>files := fs_put (handles w ! out) (FileNode m' (c' @ c)) (files w)\<rparr>)
           | _ \<Rightarrow> (Some (Ext ''bad file descriptor''), w))
        else (Some (Ext ''bad file descriptor''), w)),
      os_IsNotExist = (\<lambda>e. e = Ext ''no such file or directory''),
      filepath_Join = (\<lambda>a b. a @ ''/'' @ b),
      filepath_Rel = (\<lambda>base p.
        if p = base then Inr ''.''
        else (case strip_prefix (base @ ''/'') p of
                Some rel \<Rightarrow> Inr rel
              | None \<Rightarrow> Inl (Ext ''Rel: cannot make path relative'')))\<rparr>"

definition demo_store ::
  "(string \<Rightarrow> Mount list) \<Rightarrow> bool \<Rightarrow> (string, demo_world) Snapshotter" where
  "demo_store mk remove_fails =
     \<lparr>Stat = (\<lambda>k w.
        case map_of (snaps w) k of
          None \<Rightarrow> (Inl (Ext ''not found''), w)
        | Some (info, ms) \<Rightarrow> (Inr info, w)),
      Mounts = (\<lambda>k w.
        case map_of (snaps w) k of
          None \<Rightarrow> (Inl (Ext ''not found''), w)
        | Some (info, ms) \<Rightarrow> (Inr ms, w)),
      Prepare = (\<lambda>k parent opts w.
        case map_of (snaps w) k of
          Some _ \<Rightarrow> (Inl (Ext ''already exists''), w)
        | None \<Rightarrow>
            (case applyOpts opts Info_zero of
               (Some err, info) \<Rightarrow> (Inl err, w)
             | (None, info) \<Rightarrow>
                 (Inr (mk k),
                  w\<lparr>snaps := (k, info\<lparr>Kind := KindActive, Name := k, Parent := parent\<rparr>, mk k) # snaps w,
                    files := fs_put (''/'' @ k) (DirNode 493) (files w)\<rparr>))),
      Remove = (\<lambda>k w.
        if remove_fails then (Some (Ext ''remove failed''), w)
        else (case map_of (snaps w) k of
                None \<Rightarrow> (Some (Ext ''not found''), w)
              | Some _ \<Rightarrow> (None, w\<lparr>snaps := filter (\<lambda>(k', _). k' \<noteq> k) (snaps w)\<rparr>)))\<rparr>"

definition bind_mount :: "string \<Rightarrow> Mount list" where
  "bind_mount k = [\<lparr>Type = ''bind'', Source = ''/'' @ k, Options = [''rw'', ''rbind'']\<rparr>]"

definition WithLabels :: "(string \<rightharpoonup> string) \<Rightarrow> 'e Opt" where
  "WithLabels labels = (\<lambda>info. (None, info\<lparr>Labels := labels\<rparr>))"

definition demo_world0 :: demo_world where
  "demo_world0 =
     \<lparr>snaps = [(''s'', Info_zero\<lparr>Kind := KindActive, Name := ''s'', Parent := ''base''\<rparr>, bind_mount ''s'')],
      files = [(''/s'', DirNode 493), (''/s/a'', FileNode 420 ''hello''), (''/s/l'', LinkNode ''a''),
               (''/s/d'', DirNode 448), (''/s/d/b'', FileNode 384 ''x'')],
      handles = []\<rparr>"

definition demo_opts :: "string Opt list" where
  "demo_opts = [WithLabels [LabelCloneSource \<mapsto> ''s'']]"


definition tmpfs_mount :: "string \<Rightarrow> Mount list" where
  "tmpfs_mount k = [\<lparr>Type = ''tmpfs'', Source = ''tmpfs'', Options = []\<rparr>]"

definition demo_world1 :: demo_world where
  "demo_world1 =
     \<lparr>snaps = [(''s'', Info_zero\<lparr>Kind := KindActive, Name := ''s'', Parent := ''base''\<rparr>, bind_mount ''s'')],
      files = [],
      handles = []\<rparr>"

definition demo_world2 :: demo_world where
  "demo_world2 =
     \<lparr>snaps = [(''t'', Info_zero\<lparr>Kind := KindActive, Name := ''t'', Parent := ''base''\<rparr>, tmpfs_mount ''t'')],
      files = [],
      handles = []\<rparr>"

definition demo_opts_t :: "string Opt list" where
  "demo_opts_t = [WithLabels [LabelCloneSource \<mapsto> ''t'']]"

definition demo_world3 :: demo_world where
  "demo_world3 =
     \<lparr>snaps = [],
      files = [(''/s'', DirNode 493), (''/s/a'', FileNode 420 ''hello''),
               (''/c'', DirNode 493), (''/c/old'', FileNode 420 ''stale''),
               (''/c/sub'', DirNode 493), (''/c/sub/x'', FileNode 420 ''y'')],
      handles = []\<rparr>"

definition demo_world4 :: demo_world where
  "demo_world4 =
     \<lparr>snaps = [],
      files = [(''/s'', DirNode 493), (''/s/l'', LinkNode ''../gone''), (''/c'', DirNode 493)],
      handles = []\<rparr>"

section \<open>Specifications of the option chain and of the clearing\<close>

text \<open>
  The specification's words for the options handed to the store: all the original
  options applied in order, the first error ending the chain.  A left fold over the
  list, written without reference to the loop of \<^verbatim>\<open>withoutLabel\<close>.
\<close>

definition applyOpts_spec :: "'e Opt list \<Rightarrow> Info \<Rightarrow> 'e error option \<times> Info" where
  "applyOpts_spec opts info =
     foldl (\<lambda>acc opt. case acc of (Some err, i) \<Rightarrow> (Some err, i) | (None, i) \<Rightarrow> opt i)
       (None, info) opts"

text \<open>
  What the clearing of a directory does to the world, read off the operating system
  alone: \<open>removed_world os dir es w\<close> is the world after \<^verbatim>\<open>os.RemoveAll\<close> on the
  children \<open>es\<close> of \<open>dir\<close>, in order; \<open>removal_result os dir es i w\<close> is what the
  \<open>i\<close>-th of these removals returns, the earlier ones done; \<open>removal_calls\<close> are the
  calls recorded for them.
\<close>

definition removed_world :: "('e, 'w) OS \<Rightarrow> string \<Rightarrow> ('e, 'w) DirEntry list \<Rightarrow> 'w \<Rightarrow> 'w" where
  "removed_world os dir es w =
     foldl (\<lambda>w e. snd (os_RemoveAll os (filepath_Join os dir (d_Name e)) w)) w es"

definition removal_result ::
  "('e, 'w) OS \<Rightarrow> string \<Rightarrow> ('e, 'w) DirEntry list \<Rightarrow> nat \<Rightarrow> 'w \<Rightarrow> 'e error option" where
  "removal_result os dir es i w =
     fst (os_RemoveAll os (filepath_Join os dir (d_Name (es ! i))) (removed_world os dir (take i es) w))"

definition removal_calls :: "('e, 'w) OS \<Rightarrow> string \<Rightarrow> ('e, 'w) DirEntry list \<Rightarrow> 'e call list" where
  "removal_calls os dir es = map (\<lambda>e. CallRemoveAll (filepath_Join os dir (d_Name e))) es"

section \<open>Further example inputs\<close>

text \<open>
  Options in the style of \<^verbatim>\<open>snapshots.WithLabels\<close> that set one label or fail, two
  option lists whose result depends on the order of application, an empty source with no
  destination directory, an operating system that refuses to remove \<^verbatim>\<open>/c/sub\<close>, and
  the reading of a clone's outcome (result, keys in the store, calls).
\<close>

definition setLabel :: "string \<Rightarrow> string \<Rightarrow> 'e Opt" where
  "setLabel k v = (\<lambda>info. (None, info\<lparr>Labels := (Labels info)(k \<mapsto> v)\<rparr>))"

definition failingOpt :: "string Opt" where
  "failingOpt = (\<lambda>info. (Some (Ext ''bad option''), info))"

definition demo_opts3 :: "string Opt list" where
  "demo_opts3 =
     [WithLabels [LabelCloneSource \<mapsto> ''x'', ''a'' \<mapsto> ''1''], setLabel ''a'' ''2'',
      setLabel LabelCloneSource ''s'', setLabel ''b'' ''3'']"

definition demo_opts3_failing :: "string Opt list" where
  "demo_opts3_failing =
     [WithLabels [LabelCloneSource \<mapsto> ''x'', ''a'' \<mapsto> ''1''], setLabel ''a'' ''2'',
      failingOpt, setLabel ''b'' ''3'']"

definition demo_world5 :: demo_world where
  "demo_world5 = \<lparr>snaps = [], files = [(''/s'', DirNode 493)], handles = []\<rparr>"

definition demo_os_denied :: "(string, demo_world) OS" where
  "demo_os_denied =
     demo_os\<lparr>os_RemoveAll := (\<lambda>p w.
        if p = ''/c/sub'' then (Some (Ext ''permission denied''), w) else os_RemoveAll demo_os p w)\<rparr>"

definition clone_outcome :: "((string error + Mount list) \<times> (string, demo_world) state) option \<Rightarrow>
    ((string error + Mount list) \<times> string list \<times> string call list) option" where
  "clone_outcome = map_option (\<lambda>(r, (w, tr)). (r, map fst (snaps w), tr))"

section \<open>The writable-layer locator: results\<close>

lemma CutPrefix_prefix:
  "CutPrefix s pre = (if prefix pre s then (drop (length pre) s, True) else (s, False))"
proof -
  have "prefix pre s \<longleftrightarrow> take (length pre) s = pre"
    by (metis append_eq_conv_conj append_take_drop_id prefix_def)
  then show ?thesis by (simp add: CutPrefix_def)
qed

lemma getWritableDir_options_find:
  "getWritableDir_options opts =
     map_option (drop (length ''upperdir='')) (find (prefix ''upperdir='') opts)"
  by (induction opts) (simp_all add: CutPrefix_prefix del: prefix_code)

lemma getWritableDir_mounts_spec:
  "getWritableDir_mounts mounts = getWritableDir_spec mounts"
proof (induction mounts)
  case Nil
  show ?case by (simp add: getWritableDir_spec_def)
next
  case (Cons m ms)
  then show ?case
    by (auto simp: getWritableDir_spec_def getWritableDir_spec_entry_def
          getWritableDir_options_find split: option.splits)
qed

text \<open>
  C4.  For every mount list, \<^verbatim>\<open>getWritableDir\<close> returns what the specification's scan
  returns: the path of the first qualifying entry, which is the rest of the first
  \<^verbatim>\<open>upperdir=\<close> option of an overlay mount or the source of a bind mount.  When no
  entry qualifies, it returns the error whose text is
  \<^verbatim>\<open>no writable directory found in mounts (types: ...)\<close> with the types of all mounts
  in order, joined by a comma and a space; for the empty list the joined text is empty.
\<close>

theorem getWritableDir_first_qualifying:
  "(getWritableDir mounts :: 'e error + string) =
     (case getWritableDir_spec mounts of
        Some dir \<Rightarrow> Inr dir
      | None \<Rightarrow> Inl (ErrNoWritableDir (joinMountTypes mounts)))
   \<and> Error q msg (ErrNoWritableDir (joinMountTypes mounts) :: 'e error) =
       ''no writable directory found in mounts (types: '' @ joinMountTypes mounts @ '')''
   \<and> joinMountTypes [] = []
   \<and> joinMountTypes [m] = Type m
   \<and> joinMountTypes (m # m' # ms) = Type m @ '', '' @ joinMountTypes (m' # ms)"
  by (simp add: getWritableDir_def getWritableDir_mounts_spec joinMountTypes_def)

section \<open>The record of calls: what each function adds\<close>

lemma invoke_eq: "invoke c f (w, tr) = (case f w of (r, w') \<Rightarrow> (r, (w', tr @ [c])))"
  by (simp add: invoke_def)

lemma grows_refl: "grows P st st"
  by (simp add: grows_def)

lemma grows_trans: "grows P a b \<Longrightarrow> grows P b c \<Longrightarrow> grows P a c"
  by (auto simp: grows_def)

lemma grows_invoke: "P c \<Longrightarrow> invoke c f st = (r, st') \<Longrightarrow> grows P st st'"
  by (auto simp: grows_def invoke_def split: prod.splits)

lemma grows_weaken: "(\<And>c. P c \<Longrightarrow> Q c) \<Longrightarrow> grows P a b \<Longrightarrow> grows Q a b"
  by (auto simp: grows_def list_all_iff)

lemma copySymlink_grows:
  assumes "copySymlink os src dst st = (r, st')" and "\<And>p. P (CallReadlink p)" and "\<And>t p. P (CallSymlink t p)"
  shows "grows P st st'"
  using assms
  unfolding copySymlink_def
  by (auto simp: grows_def invoke_def split: prod.splits sum.splits)

lemma copyFile_grows:
  assumes "copyFile os src dst mode st = (r, st')"
    and "\<And>p. P (CallOpen p)" and "\<And>p f m. P (CallOpenFile p f m)"
    and "\<And>a b. P (CallCopy a b)" and "\<And>a. P (CallClose a)"
  shows "grows P st st'"
  using assms
  unfolding copyFile_def
  by (auto simp: grows_def invoke_def split: prod.splits sum.splits option.splits)

lemma copyDir_fn_grows:
  assumes "copyDir_fn os srcDir dstDir path d err st = (r, st')"
  shows "grows copy_call st st'"
  using assms
  unfolding copyDir_fn_def copySymlink_def copyFile_def
  by (auto simp: grows_def invoke_def split: option.splits sum.splits if_splits prod.splits)

lemma walkDir_entries_grows:
  assumes walk: "\<And>p d st r st'. walk p d st = Some (r, st') \<Longrightarrow> grows P st st'"
  shows "walkDir_entries walk os path ds st = Some (r, st') \<Longrightarrow> grows P st st'"
proof (induction ds arbitrary: st)
  case Nil
  then show ?case by (simp add: grows_refl)
next
  case (Cons d1 ds)
  from Cons.prems obtain r1 st1
    where w1: "walk (filepath_Join os path (d_Name d1)) d1 st = Some (r1, st1)"
    by (auto split: option.splits)
  have g1: "grows P st st1" by (rule walk[OF w1])
  show ?case
  proof (cases r1)
    case None
    with Cons.prems w1 have "walkDir_entries walk os path ds st1 = Some (r, st')" by simp
    from g1 Cons.IH[OF this] show ?thesis by (rule grows_trans)
  next
    case (Some e)
    with Cons.prems w1 g1 show ?thesis by simp
  qed
qed

lemma walkDir_grows:
  assumes fn: "\<And>p d err st r st'. fn p d err st = (r, st') \<Longrightarrow> grows P st st'"
    and rd: "\<And>p. P (CallReadDir p)"
  shows "walkDir n os fn path d st = Some (r, st') \<Longrightarrow> grows P st st'"
proof (induction n arbitrary: path d st r st')
  case 0
  then show ?case by simp
next
  case (Suc n)
  have ent: "\<And>ds s r' s'. walkDir_entries (walkDir n os fn) os path ds s = Some (r', s') \<Longrightarrow> grows P s s'"
    by (rule walkDir_entries_grows[where walk="walkDir n os fn"]) (rule Suc.IH)
  obtain r1 st1 where f1: "fn path (Some d) None st = (r1, st1)"
    by (cases "fn path (Some d) None st")
  have g1: "grows P st st1" by (rule fn[OF f1])
  show ?case
  proof (cases r1)
    case (Some e)
    with Suc.prems f1 g1 show ?thesis by simp
  next
    case None
    show ?thesis
    proof (cases "d_IsDir d")
      case False
      with Suc.prems f1 g1 None show ?thesis by simp
    next
      case True
      obtain dirs rerr st2 where rdir: "invoke (CallReadDir path) (os_ReadDir os path) st1 = ((dirs, rerr), st2)"
        by (cases "invoke (CallReadDir path) (os_ReadDir os path) st1") auto
      have g2: "grows P st1 st2" by (rule grows_invoke[where P=P, OF rd rdir])
      show ?thesis
      proof (cases rerr)
        case None2: None
        with Suc.prems f1 None True rdir
        have "walkDir_entries (walkDir n os fn) os path dirs st2 = Some (r, st')" by simp
        from ent[OF this] g1 g2 show ?thesis by (blast intro: grows_trans)
      next
        case (Some e)
        obtain r3 st3 where f3: "fn path (Some d) (Some e) st2 = (r3, st3)"
          by (cases "fn path (Some d) (Some e) st2")
        have g3: "grows P st2 st3" by (rule fn[OF f3])
        show ?thesis
        proof (cases r3)
          case None3: None
          with Suc.prems f1 None True rdir Some f3
          have "walkDir_entries (walkDir n os fn) os path dirs st3 = Some (r, st')" by simp
          from ent[OF this] g1 g2 g3 show ?thesis by (blast intro: grows_trans)
        next
          case Some3: (Some e')
          with Suc.prems f1 None True rdir Some f3 have "st' = st3" by simp
          with g1 g2 g3 show ?thesis by (blast intro: grows_trans)
        qed
      qed
    qed
  qed
qed

lemma copyDir_grows:
  assumes "copyDir n os srcDir dstDir st = Some (r, st')"
  shows "grows copy_call st st'"
proof -
  obtain l st1 where ls: "invoke (CallLstat srcDir) (os_Lstat os srcDir) st = (l, st1)"
    by (cases "invoke (CallLstat srcDir) (os_Lstat os srcDir) st")
  have g1: "grows copy_call st st1"
    by (rule grows_invoke[OF _ ls]) simp
  show ?thesis
  proof (cases l)
    case (Inl err)
    with assms ls have "copyDir_fn os srcDir dstDir srcDir None (Some err) st1 = (r, st')"
      by (simp add: copyDir_def WalkDir_def)
    from copyDir_fn_grows[OF this] g1 show ?thesis by (rule grows_trans[rotated])
  next
    case (Inr d)
    with assms ls have "walkDir n os (copyDir_fn os srcDir dstDir) srcDir d st1 = Some (r, st')"
      by (simp add: copyDir_def WalkDir_def)
    then have "grows copy_call st1 st'"
      by (rule walkDir_grows[rotated 2]) (erule copyDir_fn_grows, simp)
    with g1 show ?thesis by (rule grows_trans)
  qed
qed

lemma clearDir_entries_trace:
  "clearDir_entries os dir es st = (r, st') \<Longrightarrow>
     \<exists>k\<le>length es.
       snd st' = snd st @ map (\<lambda>e. CallRemoveAll (filepath_Join os dir (d_Name e))) (take k es) \<and>
       (r = None \<longrightarrow> k = length es)"
proof (induction es arbitrary: st)
  case Nil
  then show ?case by simp
next
  case (Cons e es)
  obtain r1 st1 where i1:
    "invoke (CallRemoveAll (filepath_Join os dir (d_Name e)))
       (os_RemoveAll os (filepath_Join os dir (d_Name e))) st = (r1, st1)"
    by (cases "invoke (CallRemoveAll (filepath_Join os dir (d_Name e)))
       (os_RemoveAll os (filepath_Join os dir (d_Name e))) st")
  then have t1: "snd st1 = snd st @ [CallRemoveAll (filepath_Join os dir (d_Name e))]"
    by (auto simp: invoke_def split: prod.splits)
  show ?case
  proof (cases r1)
    case None
    with Cons.prems i1 have "clearDir_entries os dir es st1 = (r, st')" by simp
    from Cons.IH[OF this] obtain k where k: "k \<le> length es"
      "snd st' = snd st1 @ map (\<lambda>e. CallRemoveAll (filepath_Join os dir (d_Name e))) (take k es)"
      "r = None \<longrightarrow> k = length es" by blast
    show ?thesis
      by (rule exI[of _ "Suc k"]) (use k t1 in simp)
  next
    case (Some err)
    with Cons.prems i1 have "r = Some err" "st' = st1" by simp_all
    then show ?thesis
      by (intro exI[of _ "Suc 0"]) (simp add: t1)
  qed
qed

lemma clearDir_trace:
  assumes "clearDir os dir (w, tr) = (r, (w', tr'))"
    and "os_ReadDir os dir w = ((es, rerr), w1)"
  shows "\<exists>k\<le>length es.
       tr' = tr @ CallReadDir dir # map (\<lambda>e. CallRemoveAll (filepath_Join os dir (d_Name e))) (take k es) \<and>
       (rerr = None \<and> r = None \<longrightarrow> k = length es) \<and> (rerr \<noteq> None \<longrightarrow> k = 0)"
proof (cases rerr)
  case None
  with assms have "clearDir_entries os dir es (w1, tr @ [CallReadDir dir]) = (r, (w', tr'))"
    by (simp add: clearDir_def invoke_def)
  from clearDir_entries_trace[OF this] None show ?thesis by auto
next
  case (Some err)
  with assms have "tr' = tr @ [CallReadDir dir]"
    by (auto simp: clearDir_def invoke_def split: if_splits)
  with Some show ?thesis by (intro exI[of _ 0]) simp
qed

lemma clearDir_missing:
  "os_ReadDir os dir w = ((es, Some err), w1) \<Longrightarrow> os_IsNotExist os err \<Longrightarrow>
     clearDir os dir (w, tr) = (None, (w1, tr @ [CallReadDir dir]))"
  by (simp add: clearDir_def invoke_def)

lemma copyWritableLayer_dirs:
  fixes os :: "('e, 'w) OS"
  shows "(getWritableDir srcMounts :: 'e error + string) = Inr srcDir \<Longrightarrow>
   (getWritableDir dstMounts :: 'e error + string) = Inr dstDir \<Longrightarrow>
   copyWritableLayer n os srcMounts dstMounts st =
     (case clearDir os dstDir st of
        (Some err, st1) \<Rightarrow> Some (Some (ErrClearDst err), st1)
      | (None, st1) \<Rightarrow> copyDir n os srcDir dstDir st1)"
  by (simp add: copyWritableLayer_def)

lemma clearDir_grows:
  assumes "clearDir os dir st = (r, st')"
  shows "grows (\<lambda>c. \<not> store_call c) st st'"
proof -
  obtain w tr where st: "st = (w, tr)" by (cases st)
  obtain w' tr' where st': "st' = (w', tr')" by (cases st')
  obtain es rerr w1 where rd: "os_ReadDir os dir w = ((es, rerr), w1)"
    by (cases "os_ReadDir os dir w") auto
  from clearDir_trace[OF assms[unfolded st st'] rd]
  show ?thesis unfolding st st' grows_def by (auto simp: list_all_iff)
qed

lemma copyWritableLayer_grows:
  assumes "copyWritableLayer n os srcMounts dstMounts st = Some (r, st')"
  shows "grows (\<lambda>c. \<not> store_call c) st st'"
proof (cases "getWritableDir srcMounts :: 'a error + string")
  case (Inl e)
  with assms show ?thesis by (simp add: copyWritableLayer_def grows_refl)
next
  case src: (Inr srcDir)
  show ?thesis
  proof (cases "getWritableDir dstMounts :: 'a error + string")
    case (Inl e)
    with assms src show ?thesis by (simp add: copyWritableLayer_def grows_refl)
  next
    case dst: (Inr dstDir)
    obtain r1 st1 where c: "clearDir os dstDir st = (r1, st1)" by (cases "clearDir os dstDir st")
    have g1: "grows (\<lambda>c. \<not> store_call c) st st1" by (rule clearDir_grows[OF c])
    show ?thesis
    proof (cases r1)
      case (Some e)
      with assms src dst c g1 show ?thesis by (simp add: copyWritableLayer_def)
    next
      case None
      with assms src dst c have "copyDir n os srcDir dstDir st1 = Some (r, st')"
        by (simp add: copyWritableLayer_def)
      from copyDir_grows[OF this] have "grows (\<lambda>c. \<not> store_call c) st1 st'"
        by (rule grows_weaken[rotated]) (case_tac c, simp_all)
      with g1 show ?thesis by (rule grows_trans)
    qed
  qed
qed

section \<open>The clone-aware prepare: results\<close>

lemma clonePrepare_stat_fails:
  "Stat s sourceKey w = (Inl e, w1) \<Longrightarrow>
   clonePrepare n s os key sourceKey opts (w, tr) =
     Some (Inl (ErrStatSource sourceKey e), (w1, tr @ [CallStat sourceKey]))"
  by (simp add: clonePrepare_def invoke_def)

lemma clonePrepare_mounts_fails:
  "Stat s sourceKey w = (Inr si, w1) \<Longrightarrow> Mounts s sourceKey w1 = (Inl e, w2) \<Longrightarrow>
   clonePrepare n s os key sourceKey opts (w, tr) =
     Some (Inl (ErrGetMounts sourceKey e), (w2, tr @ [CallStat sourceKey, CallMounts sourceKey]))"
  by (simp add: clonePrepare_def invoke_def)

lemma clonePrepare_prepare_fails:
  "Stat s sourceKey w = (Inr si, w1) \<Longrightarrow> Mounts s sourceKey w1 = (Inr sm, w2) \<Longrightarrow>
   Prepare s key (Parent si) (withoutLabel opts LabelCloneSource) w2 = (Inl e, w3) \<Longrightarrow>
   clonePrepare n s os key sourceKey opts (w, tr) =
     Some (Inl (ErrPrepare key e),
           (w3, tr @ [CallStat sourceKey, CallMounts sourceKey,
                      CallPrepare key (Parent si) (withoutLabel opts LabelCloneSource)]))"
  by (simp add: clonePrepare_def invoke_def)

lemma clonePrepare_prepared:
  "Stat s sourceKey w = (Inr si, w1) \<Longrightarrow> Mounts s sourceKey w1 = (Inr sm, w2) \<Longrightarrow>
   Prepare s key (Parent si) (withoutLabel opts LabelCloneSource) w2 = (Inr ms, w3) \<Longrightarrow>
   clonePrepare n s os key sourceKey opts (w, tr) =
     (case copyWritableLayer n os sm ms
             (w3, tr @ [CallStat sourceKey, CallMounts sourceKey,
                        CallPrepare key (Parent si) (withoutLabel opts LabelCloneSource)]) of
        None \<Rightarrow> None
      | Some (Some err, (w4, tr4)) \<Rightarrow>
          (case Remove s key w4 of
             (Some removeErr, w5) \<Rightarrow>
               Some (Inl (ErrCopyCleanup err removeErr), (w5, tr4 @ [CallRemove key]))
           | (None, w5) \<Rightarrow> Some (Inl (ErrCopy sourceKey key err), (w5, tr4 @ [CallRemove key])))
      | Some (None, st4) \<Rightarrow> Some (Inr ms, st4))"
  by (simp add: clonePrepare_def invoke_def split: option.splits prod.splits)

lemma Prepare_clone_path:
  "applyOpts opts Info_zero = (None, info) \<Longrightarrow> Labels info LabelCloneSource = Some sourceKey \<Longrightarrow>
   CloneSnapshotter_Prepare n s os key parent opts st = clonePrepare n s os key sourceKey opts st"
  by (simp add: CloneSnapshotter_Prepare_def)

text \<open>
  C2.  When the options resolve without error on the zero info and the resolved labels
  lack the clone directive, \<^verbatim>\<open>Prepare\<close> returns, for every amount of fuel, exactly
  what the store's own prepare returns for the same key, parent and options (its
  mounts or its error, and the world it leaves), and the only call made to a
  collaborator is that one prepare.
\<close>

theorem Prepare_pure_delegation:
  assumes "applyOpts opts Info_zero = (None, info)"
    and "Labels info LabelCloneSource = None"
  shows "CloneSnapshotter_Prepare n s os key parent opts (w, tr) =
           Some (fst (Prepare s key parent opts w),
                 (snd (Prepare s key parent opts w), tr @ [CallPrepare key parent opts]))"
  using assms
  by (simp add: CloneSnapshotter_Prepare_def invoke_def split: prod.splits)


text \<open>
  C5.  When the clone directive is present and the store's stat of the source key
  fails, \<^verbatim>\<open>Prepare\<close> returns the error \<^verbatim>\<open>stat source snapshot ...\<close> that wraps the
  stat error (so it is a not-found error exactly when the stat error is one), the world
  is the one the stat left, and the stat is the only call made: no prepare, no remove,
  no call to the operating system.
\<close>

theorem clone_missing_source:
  assumes "applyOpts opts Info_zero = (None, info)"
    and "Labels info LabelCloneSource = Some sourceKey"
    and "Stat s sourceKey w = (Inl e, w1)"
  shows "CloneSnapshotter_Prepare n s os key parent opts (w, tr) =
           Some (Inl (ErrStatSource sourceKey e), (w1, tr @ [CallStat sourceKey]))
       \<and> Unwrap (ErrStatSource sourceKey e) = Some e
       \<and> errIs notFound (ErrStatSource sourceKey e) = errIs notFound e"
  using assms by (simp add: Prepare_clone_path clonePrepare_stat_fails)

subsection \<open>Examples\<close>

lemma demo_opts_resolved:
  "applyOpts demo_opts Info_zero = (None, Info_zero\<lparr>Labels := [LabelCloneSource \<mapsto> ''s'']\<rparr>)"
  by (simp add: demo_opts_def WithLabels_def)

theorem Prepare_pure_delegation_witness:
  "applyOpts ([] :: string Opt list) Info_zero = (None, Info_zero)
   \<and> Labels Info_zero LabelCloneSource = None
   \<and> CloneSnapshotter_Prepare 0 (demo_store bind_mount False) demo_os ''n'' ''base'' [] (demo_world0, []) =
       Some (fst (Prepare (demo_store bind_mount False) ''n'' ''base'' [] demo_world0),
             (snd (Prepare (demo_store bind_mount False) ''n'' ''base'' [] demo_world0),
              [CallPrepare ''n'' ''base'' []]))
   \<and> fst (Prepare (demo_store bind_mount False) ''n'' ''base'' [] demo_world0) = Inr (bind_mount ''n'')"
proof -
  have a: "applyOpts ([] :: string Opt list) Info_zero = (None, Info_zero)" by simp
  have b: "Labels Info_zero LabelCloneSource = None" by (simp add: Info_zero_def)
  have c: "fst (Prepare (demo_store bind_mount False) ''n'' ''base'' [] demo_world0) = Inr (bind_mount ''n'')"
    by (simp add: demo_store_def demo_world0_def)
  from Prepare_pure_delegation[OF a b, of 0 "demo_store bind_mount False" demo_os "''n''" "''base''" demo_world0 "[]"]
    a b c show ?thesis by simp
qed


theorem clone_missing_source_witness:
  "applyOpts [WithLabels [LabelCloneSource \<mapsto> ''gone'']] Info_zero =
     (None, Info_zero\<lparr>Labels := [LabelCloneSource \<mapsto> ''gone'']\<rparr>)
   \<and> Stat (demo_store bind_mount False) ''gone'' demo_world0 = (Inl (Ext ''not found''), demo_world0)
   \<and> CloneSnapshotter_Prepare 0 (demo_store bind_mount False) demo_os ''c'' ''base''
        [WithLabels [LabelCloneSource \<mapsto> ''gone'']] (demo_world0, []) =
       Some (Inl (ErrStatSource ''gone'' (Ext ''not found'')), (demo_world0, [CallStat ''gone'']))
   \<and> errIs (\<lambda>e. e = ''not found'') (ErrStatSource ''gone'' (Ext ''not found''))"
proof -
  have a: "applyOpts [WithLabels [LabelCloneSource \<mapsto> ''gone'']] Info_zero =
     (None, Info_zero\<lparr>Labels := [LabelCloneSource \<mapsto> ''gone'']\<rparr>)"
    by (simp add: WithLabels_def)
  have b: "Labels (Info_zero\<lparr>Labels := [LabelCloneSource \<mapsto> ''gone'']\<rparr>) LabelCloneSource = Some ''gone''" by simp
  have c: "Stat (demo_store bind_mount False) ''gone'' demo_world0 = (Inl (Ext ''not found''), demo_world0)"
    by (simp add: demo_store_def demo_world0_def)
  from clone_missing_source[OF a b c, of 0 demo_os "''c''" "''base''" "[]" "\<lambda>e. e = ''not found''"]
    a c show ?thesis by simp
qed

lemma grows_filter:
  "grows (\<lambda>c. \<not> store_call c) (w, tr) (w', tr') \<Longrightarrow>
     \<exists>new. tr' = tr @ new \<and> filter store_call new = []"
  by (auto simp: grows_def list_all_iff filter_empty_conv)

lemma clonePrepare_calls:
  assumes run: "clonePrepare n s os key sourceKey opts (w, tr) = Some (r, (w', tr'))"
  shows "\<exists>new. tr' = tr @ new \<and>
     (case Stat s sourceKey w of
        (Inl e, w1) \<Rightarrow> filter store_call new = [CallStat sourceKey]
      | (Inr si, w1) \<Rightarrow>
          (case Mounts s sourceKey w1 of
             (Inl e, w2) \<Rightarrow> filter store_call new = [CallStat sourceKey, CallMounts sourceKey]
           | (Inr sm, w2) \<Rightarrow>
               filter store_call new =
                 [CallStat sourceKey, CallMounts sourceKey,
                  CallPrepare key (Parent si) (withoutLabel opts LabelCloneSource)]
               \<or> filter store_call new =
                 [CallStat sourceKey, CallMounts sourceKey,
                  CallPrepare key (Parent si) (withoutLabel opts LabelCloneSource),
                  CallRemove key]))"
proof -
  obtain rs w1 where st: "Stat s sourceKey w = (rs, w1)" by (cases "Stat s sourceKey w")
  show ?thesis
  proof (cases rs)
    case (Inl e)
    with st run show ?thesis by (auto simp: clonePrepare_stat_fails)
  next
    case si: (Inr si)
    obtain rm w2 where mo: "Mounts s sourceKey w1 = (rm, w2)" by (cases "Mounts s sourceKey w1")
    show ?thesis
    proof (cases rm)
      case (Inl e)
      with st si mo run show ?thesis by (auto simp: clonePrepare_mounts_fails)
    next
      case sm: (Inr sm)
      let ?io = "withoutLabel opts LabelCloneSource"
      let ?c3 = "[CallStat sourceKey, CallMounts sourceKey, CallPrepare key (Parent si) ?io]"
      obtain rp w3 where pr: "Prepare s key (Parent si) ?io w2 = (rp, w3)"
        by (cases "Prepare s key (Parent si) ?io w2")
      show ?thesis
      proof (cases rp)
        case (Inl e)
        with st si mo sm pr run show ?thesis by (auto simp: clonePrepare_prepare_fails)
      next
        case ms: (Inr ms)
        from run obtain rc w4 tr4 where
          cp: "copyWritableLayer n os sm ms (w3, tr @ ?c3) = Some (rc, (w4, tr4))"
          and fin: "tr' = tr4 \<or> tr' = tr4 @ [CallRemove key]"
          unfolding clonePrepare_prepared[OF st[unfolded si] mo[unfolded sm] pr[unfolded ms]]
          by (auto split: option.splits prod.splits)
        from grows_filter[OF copyWritableLayer_grows[OF cp]] obtain new
          where new: "tr4 = (tr @ ?c3) @ new" "filter store_call new = []" by blast
        from fin show ?thesis
        proof
          assume "tr' = tr4"
          with new have "tr' = tr @ (?c3 @ new)" "filter store_call (?c3 @ new) = ?c3" by simp_all
          with st si mo sm show ?thesis by (intro exI[of _ "?c3 @ new"]) simp
        next
          assume "tr' = tr4 @ [CallRemove key]"
          with new have "tr' = tr @ (?c3 @ new @ [CallRemove key])"
            "filter store_call (?c3 @ new @ [CallRemove key]) = ?c3 @ [CallRemove key]" by simp_all
          with st si mo sm show ?thesis by (intro exI[of _ "?c3 @ new @ [CallRemove key]"]) simp
        qed
      qed
    qed
  qed
qed

lemma clone_rollback_aux:
  assumes "applyOpts opts Info_zero = (None, info)"
    and "Labels info LabelCloneSource = Some sourceKey"
    and "Stat s sourceKey w = (Inr sourceInfo, w1)"
    and "Mounts s sourceKey w1 = (Inr sourceMounts, w2)"
    and "Prepare s key (Parent sourceInfo) (withoutLabel opts LabelCloneSource) w2 = (Inr mounts, w3)"
    and "copyWritableLayer n os sourceMounts mounts
           (w3, tr @ [CallStat sourceKey, CallMounts sourceKey,
                      CallPrepare key (Parent sourceInfo) (withoutLabel opts LabelCloneSource)]) =
         Some (Some err, (w4, tr4))"
  shows "CloneSnapshotter_Prepare n s os key parent opts (w, tr) =
           Some (Inl (case fst (Remove s key w4) of
                        None \<Rightarrow> ErrCopy sourceKey key err
                      | Some removeErr \<Rightarrow> ErrCopyCleanup err removeErr),
                 (snd (Remove s key w4), tr4 @ [CallRemove key]))"
  using assms
  by (simp add: Prepare_clone_path clonePrepare_prepared split: prod.splits option.splits)

text \<open>
  C6.  When the stat, the mounts and the prepare succeeded and the replication returns
  an error, the store's remove is called on the destination key, in the world the
  replication left.  When the remove succeeds the result is the error
  \<^verbatim>\<open>copy writable layer from ... to ...\<close> that wraps the replication error alone; when
  the remove fails too the result is the error \<^verbatim>\<open>copy writable layer: ... (cleanup
  also failed: ...)\<close>, which wraps the replication error and carries the text of the
  remove error.
\<close>

theorem clone_rollback:
  assumes "applyOpts opts Info_zero = (None, info)"
    and "Labels info LabelCloneSource = Some sourceKey"
    and "Stat s sourceKey w = (Inr sourceInfo, w1)"
    and "Mounts s sourceKey w1 = (Inr sourceMounts, w2)"
    and "Prepare s key (Parent sourceInfo) (withoutLabel opts LabelCloneSource) w2 = (Inr mounts, w3)"
    and "copyWritableLayer n os sourceMounts mounts
           (w3, tr @ [CallStat sourceKey, CallMounts sourceKey,
                      CallPrepare key (Parent sourceInfo) (withoutLabel opts LabelCloneSource)]) =
         Some (Some err, (w4, tr4))"
  shows "CloneSnapshotter_Prepare n s os key parent opts (w, tr) =
           Some (Inl (case fst (Remove s key w4) of
                        None \<Rightarrow> ErrCopy sourceKey key err
                      | Some removeErr \<Rightarrow> ErrCopyCleanup err removeErr),
                 (snd (Remove s key w4), tr4 @ [CallRemove key]))
       \<and> Unwrap (ErrCopy sourceKey key err) = Some err
       \<and> Error q m (ErrCopy sourceKey key err) =
           ''copy writable layer from '' @ q sourceKey @ '' to '' @ q key @ '': '' @ Error q m err
       \<and> Unwrap (ErrCopyCleanup err removeErr) = Some err
       \<and> Error q m (ErrCopyCleanup err removeErr) =
           ''copy writable layer: '' @ Error q m err @
           '' (cleanup also failed: '' @ Error q m removeErr @ '')''"
  using clone_rollback_aux[OF assms, of parent] by simp

subsection \<open>Examples of clones\<close>

lemmas demo_defs = demo_store_def demo_os_def demo_world0_def demo_opts_def WithLabels_def
  bind_mount_def demo_entry_def demo_info_def child_name_def node_mode_def fs_put_def
  clonePrepare_def CloneSnapshotter_Prepare_def copyWritableLayer_def copyDir_def WalkDir_def
  copyDir_fn_def copySymlink_def copyFile_def clearDir_def invoke_def getWritableDir_def
  withoutLabel_def Info_zero_def LabelCloneSource_def CutPrefix_def ModeDir_def ModeSymlink_def
  ModePerm_def Perm_def parent_dir_def parent_exists_def demo_world1_def demo_world2_def tmpfs_mount_def demo_opts_t_def
  joinMountTypes_def

lemma demo_opts_label:
  "Labels (Info_zero\<lparr>Labels := [LabelCloneSource \<mapsto> ''s'']\<rparr>) LabelCloneSource = Some ''s''"
  by simp

lemma demo1_stat:
  "Stat (demo_store bind_mount b) ''s'' demo_world1 =
     (Inr (Info_zero\<lparr>Kind := KindActive, Name := ''s'', Parent := ''base''\<rparr>), demo_world1)"
  by (simp add: demo_store_def demo_world1_def)

lemma demo1_mounts:
  "Mounts (demo_store bind_mount b) ''s'' demo_world1 = (Inr (bind_mount ''s''), demo_world1)"
  by (simp add: demo_store_def demo_world1_def)

lemma demo1_prepare:
  "Prepare (demo_store bind_mount b) ''c''
     (Parent (Info_zero\<lparr>Kind := KindActive, Name := ''s'', Parent := ''base''\<rparr>))
     (withoutLabel demo_opts LabelCloneSource) demo_world1 =
   (Inr (bind_mount ''c''),
    snd (Prepare (demo_store bind_mount b) ''c'' ''base''
           (withoutLabel demo_opts LabelCloneSource) demo_world1))"
  by (simp add: demo_store_def demo_world1_def withoutLabel_def demo_opts_def WithLabels_def Info_zero_def)

lemma demo1_copy:
  "copyWritableLayer 0 demo_os (bind_mount ''s'') (bind_mount ''c'')
     (snd (Prepare (demo_store bind_mount b) ''c'' ''base''
             (withoutLabel demo_opts LabelCloneSource) demo_world1),
      [] @ [CallStat ''s'', CallMounts ''s'',
       CallPrepare ''c''
         (Parent (Info_zero\<lparr>Kind := KindActive, Name := ''s'', Parent := ''base''\<rparr>))
         (withoutLabel demo_opts LabelCloneSource)]) =
   Some (Some (Ext ''no such file or directory''),
     (snd (Prepare (demo_store bind_mount b) ''c'' ''base''
             (withoutLabel demo_opts LabelCloneSource) demo_world1),
      [CallStat ''s'', CallMounts ''s'',
       CallPrepare ''c'' ''base'' (withoutLabel demo_opts LabelCloneSource),
       CallReadDir ''/c'', CallLstat ''/s'']))"
  by (simp add: demo_defs)

theorem clone_rollback_witness:
  "CloneSnapshotter_Prepare 0 (demo_store bind_mount True) demo_os ''c'' [] demo_opts (demo_world1, []) =
     Some (Inl (ErrCopyCleanup (Ext ''no such file or directory'') (Ext ''remove failed'')),
           (snd (Prepare (demo_store bind_mount True) ''c'' ''base''
                   (withoutLabel demo_opts LabelCloneSource) demo_world1),
            [CallStat ''s'', CallMounts ''s'',
             CallPrepare ''c'' ''base'' (withoutLabel demo_opts LabelCloneSource),
             CallReadDir ''/c'', CallLstat ''/s'', CallRemove ''c'']))
   \<and> map_option (apsnd (map fst \<circ> snaps \<circ> fst))
       (CloneSnapshotter_Prepare 0 (demo_store bind_mount False) demo_os ''c'' [] demo_opts (demo_world1, [])) =
     Some (Inl (ErrCopy ''s'' ''c'' (Ext ''no such file or directory'')), [''s''])
   \<and> Error id id (ErrCopyCleanup (Ext ''no such file or directory'') (Ext ''remove failed'')) =
       ''copy writable layer: no such file or directory (cleanup also failed: remove failed)''"
proof -
  have rmT: "Remove (demo_store bind_mount True) ''c'' w = (Some (Ext ''remove failed''), w)" for w
    by (simp add: demo_store_def)
  have rmF: "map fst (snaps (snd (Remove (demo_store bind_mount False) ''c''
       (snd (Prepare (demo_store bind_mount False) ''c'' ''base''
                   (withoutLabel demo_opts LabelCloneSource) demo_world1))))) = [''s'']"
      "fst (Remove (demo_store bind_mount False) ''c''
       (snd (Prepare (demo_store bind_mount False) ''c'' ''base''
                   (withoutLabel demo_opts LabelCloneSource) demo_world1))) = None"
    by (simp_all add: demo_defs)
  from clone_rollback[OF demo_opts_resolved demo_opts_label demo1_stat demo1_mounts demo1_prepare demo1_copy,
      of True "[]" id id "Ext ''remove failed''"]
    clone_rollback[OF demo_opts_resolved demo_opts_label demo1_stat demo1_mounts demo1_prepare demo1_copy,
      of False "[]" id id "Ext ''remove failed''"]
    rmT rmF
  show ?thesis by simp
qed

lemma demo_opts_t_resolved:
  "applyOpts demo_opts_t Info_zero = (None, Info_zero\<lparr>Labels := [LabelCloneSource \<mapsto> ''t'']\<rparr>)"
  by (simp add: demo_opts_t_def WithLabels_def)

lemma demo_opts_t_label:
  "Labels (Info_zero\<lparr>Labels := [LabelCloneSource \<mapsto> ''t'']\<rparr>) LabelCloneSource = Some ''t''"
  by simp

text \<open>
  C7, as stated, fails.  The source \<open>t\<close> has a single mount of type \<^verbatim>\<open>tmpfs\<close>, so no
  writable directory is found in the source's mounts; yet the store's prepare of the
  destination \<open>c\<close> is called before the failure, and its remove after it.
\<close>

theorem clone_unsupported_source_counterexample:
  "(getWritableDir (tmpfs_mount ''t'') :: string error + string) = Inl (ErrNoWritableDir ''tmpfs'')
   \<and> fst (Mounts (demo_store bind_mount False) ''t'' demo_world2) = Inr (tmpfs_mount ''t'')
   \<and> map_option (apsnd snd)
       (CloneSnapshotter_Prepare 0 (demo_store bind_mount False) demo_os ''c'' [] demo_opts_t
          (demo_world2, [])) =
     Some (Inl (ErrCopy ''t'' ''c'' (ErrSource (ErrNoWritableDir ''tmpfs''))),
           [CallStat ''t'', CallMounts ''t'',
            CallPrepare ''c'' ''base'' (withoutLabel demo_opts_t LabelCloneSource),
            CallRemove ''c''])"
  by (simp add: demo_defs)

lemma demo2_stat:
  "Stat (demo_store mk b) ''t'' demo_world2 =
     (Inr (Info_zero\<lparr>Kind := KindActive, Name := ''t'', Parent := ''base''\<rparr>), demo_world2)"
  by (simp add: demo_store_def demo_world2_def)

lemma demo2_mounts:
  "Mounts (demo_store mk b) ''t'' demo_world2 = (Inr (tmpfs_mount ''t''), demo_world2)"
  by (simp add: demo_store_def demo_world2_def)

lemma demo2_prepare:
  "Prepare (demo_store mk b) ''c''
     (Parent (Info_zero\<lparr>Kind := KindActive, Name := ''t'', Parent := ''base''\<rparr>))
     (withoutLabel demo_opts_t LabelCloneSource) demo_world2 =
   (Inr (mk ''c''),
    snd (Prepare (demo_store mk b) ''c'' ''base''
           (withoutLabel demo_opts_t LabelCloneSource) demo_world2))"
  by (simp add: demo_store_def demo_world2_def withoutLabel_def demo_opts_t_def WithLabels_def Info_zero_def)

lemma demo1_prepare_tmpfs:
  "Prepare (demo_store tmpfs_mount b) ''c''
     (Parent (Info_zero\<lparr>Kind := KindActive, Name := ''s'', Parent := ''base''\<rparr>))
     (withoutLabel demo_opts LabelCloneSource) demo_world1 =
   (Inr (tmpfs_mount ''c''),
    snd (Prepare (demo_store tmpfs_mount b) ''c'' ''base''
           (withoutLabel demo_opts LabelCloneSource) demo_world1))"
  by (simp add: demo_store_def demo_world1_def withoutLabel_def demo_opts_def WithLabels_def Info_zero_def)

lemma demo1_stat':
  "Stat (demo_store mk b) ''s'' demo_world1 =
     (Inr (Info_zero\<lparr>Kind := KindActive, Name := ''s'', Parent := ''base''\<rparr>), demo_world1)"
  by (simp add: demo_store_def demo_world1_def)

lemma demo1_mounts':
  "Mounts (demo_store mk b) ''s'' demo_world1 = (Inr (bind_mount ''s''), demo_world1)"
  by (simp add: demo_store_def demo_world1_def)

section \<open>Stripping the clone directive\<close>

lemma applyOpts_withoutLabel:
  "applyOpts (withoutLabel opts label) info0 =
     (case applyOpts opts info0 of
        (Some err, info1) \<Rightarrow> (Some err, info1)
      | (None, info1) \<Rightarrow> (None, info1\<lparr>Labels := (Labels info1)(label := None)\<rparr>))"
  by (simp add: withoutLabel_def split: prod.splits option.splits)

lemma clonePrepare_prepare_calls:
  assumes run: "clonePrepare n s os key sourceKey opts (w, tr) = Some (r, (w', tr'))"
    and mem: "CallPrepare k p os' \<in> set (drop (length tr) tr')"
  shows "k = key \<and> os' = withoutLabel opts LabelCloneSource"
proof -
  let ?io = "withoutLabel opts LabelCloneSource"
  from clonePrepare_calls[OF run] obtain new where both: "tr' = tr @ new \<and>
     (case Stat s sourceKey w of
        (Inl e, w1) \<Rightarrow> filter store_call new = [CallStat sourceKey]
      | (Inr si, w1) \<Rightarrow>
          (case Mounts s sourceKey w1 of
             (Inl e, w2) \<Rightarrow> filter store_call new = [CallStat sourceKey, CallMounts sourceKey]
           | (Inr sm, w2) \<Rightarrow>
               filter store_call new =
                 [CallStat sourceKey, CallMounts sourceKey, CallPrepare key (Parent si) ?io]
               \<or> filter store_call new =
                 [CallStat sourceKey, CallMounts sourceKey, CallPrepare key (Parent si) ?io,
                  CallRemove key]))" ..
  note new = conjunct1[OF both] and sh = conjunct2[OF both]
  from mem new have m: "CallPrepare k p os' \<in> set (filter store_call new)" by simp
  obtain rs w1 where st: "Stat s sourceKey w = (rs, w1)" by (cases "Stat s sourceKey w")
  show ?thesis
  proof (cases rs)
    case (Inl e)
    with st sh have "filter store_call new = [CallStat sourceKey]" by simp
    with m show ?thesis by simp
  next
    case si: (Inr si)
    obtain rm w2 where mo: "Mounts s sourceKey w1 = (rm, w2)" by (cases "Mounts s sourceKey w1")
    show ?thesis
    proof (cases rm)
      case (Inl e)
      with st si mo sh have "filter store_call new = [CallStat sourceKey, CallMounts sourceKey]"
        by simp
      with m show ?thesis by simp
    next
      case (Inr sm)
      with st si mo sh have
        "filter store_call new =
           [CallStat sourceKey, CallMounts sourceKey, CallPrepare key (Parent si) ?io]
         \<or> filter store_call new =
           [CallStat sourceKey, CallMounts sourceKey, CallPrepare key (Parent si) ?io,
            CallRemove key]" by simp
      then show ?thesis
      proof
        assume "filter store_call new =
           [CallStat sourceKey, CallMounts sourceKey, CallPrepare key (Parent si) ?io]"
        with m show ?thesis by simp
      next
        assume "filter store_call new =
           [CallStat sourceKey, CallMounts sourceKey, CallPrepare key (Parent si) ?io,
            CallRemove key]"
        with m show ?thesis by simp
      qed
    qed
  qed
qed

lemma withoutLabel_result:
  assumes "applyOpts (withoutLabel opts label) info0 = (None, info')"
  shows "\<exists>info1. applyOpts opts info0 = (None, info1)
           \<and> info' = info1\<lparr>Labels := (Labels info1)(label := None)\<rparr>"
proof -
  obtain r1 info1 where a: "applyOpts opts info0 = (r1, info1)" by (cases "applyOpts opts info0")
  show ?thesis
  proof (cases r1)
    case None
    with a assms show ?thesis by (simp add: applyOpts_withoutLabel)
  next
    case (Some e)
    with a assms show ?thesis by (simp add: applyOpts_withoutLabel)
  qed
qed

section \<open>The directory replicator: results\<close>

lemma copyWritableLayer_trace:
  fixes os :: "('e, 'w) OS"
  assumes src: "(getWritableDir srcMounts :: 'e error + string) = Inr srcDir"
    and dst: "(getWritableDir dstMounts :: 'e error + string) = Inr dstDir"
    and rd: "os_ReadDir os dstDir w = ((entries, rerr), w1)"
    and run: "copyWritableLayer n os srcMounts dstMounts (w, tr) = Some (r, (w', tr'))"
  shows "\<exists>k copied. k \<le> length entries
             \<and> tr' = tr @ CallReadDir dstDir
                      # map (\<lambda>e. CallRemoveAll (filepath_Join os dstDir (d_Name e)))
                          (take k entries) @ copied
             \<and> list_all copy_call copied
             \<and> (rerr = None \<and> copied \<noteq> [] \<longrightarrow> k = length entries)
             \<and> (rerr \<noteq> None \<longrightarrow> k = 0)"
proof -
  let ?rm = "\<lambda>k. map (\<lambda>e. CallRemoveAll (filepath_Join os dstDir (d_Name e))) (take k entries)"
  note a = copyWritableLayer_dirs[OF src dst, of n os "(w, tr)"]
  obtain rc wc trc where c: "clearDir os dstDir (w, tr) = (rc, (wc, trc))"
    by (cases "clearDir os dstDir (w, tr)") auto
  from clearDir_trace[OF c rd] obtain k where k: "k \<le> length entries"
    "trc = tr @ CallReadDir dstDir # ?rm k"
    "rerr = None \<and> rc = None \<longrightarrow> k = length entries" "rerr \<noteq> None \<longrightarrow> k = 0"
    by (elim exE conjE)
  show ?thesis
  proof (cases rc)
    case (Some err)
    with run a c have "tr' = trc" by simp
    with k show ?thesis
      by (intro exI[of _ k] exI[of _ "[]"]) simp
  next
    case None
    with run a c have "copyDir n os srcDir dstDir (wc, trc) = Some (r, (w', tr'))" by simp
    from copyDir_grows[OF this] obtain copied where
      "tr' = trc @ copied" "list_all copy_call copied" by (auto simp: grows_def)
    with k None show ?thesis
      by (intro exI[of _ k] exI[of _ copied]) simp
  qed
qed

lemma copyWritableLayer_keeps_dir:
  fixes os :: "('e, 'w) OS"
  assumes src: "(getWritableDir srcMounts :: 'e error + string) = Inr srcDir"
    and dst: "(getWritableDir dstMounts :: 'e error + string) = Inr dstDir"
    and rd: "os_ReadDir os dstDir w = ((entries, rerr), w1)"
    and run: "copyWritableLayer n os srcMounts dstMounts (w, tr) = Some (r, (w', tr'))"
    and ne: "\<forall>e\<in>set entries. filepath_Join os dstDir (d_Name e) \<noteq> dstDir"
  shows "CallRemoveAll dstDir \<notin> set (drop (length tr) tr')"
proof
  assume mem: "CallRemoveAll dstDir \<in> set (drop (length tr) tr')"
  from copyWritableLayer_trace[OF src dst rd run] obtain k copied where
    sh: "tr' = tr @ CallReadDir dstDir
            # map (\<lambda>e. CallRemoveAll (filepath_Join os dstDir (d_Name e))) (take k entries) @ copied"
    and cc: "list_all copy_call copied" by (elim exE conjE)
  from mem sh have
    "(CallRemoveAll dstDir :: 'e call)
       \<in> set (map (\<lambda>e. CallRemoveAll (filepath_Join os dstDir (d_Name e))) (take k entries))
     \<or> CallRemoveAll dstDir \<in> set copied" by simp
  then show False
  proof
    assume "(CallRemoveAll dstDir :: 'e call)
       \<in> set (map (\<lambda>e. CallRemoveAll (filepath_Join os dstDir (d_Name e))) (take k entries))"
    then obtain e where "e \<in> set (take k entries)" "filepath_Join os dstDir (d_Name e) = dstDir"
      by auto
    with ne show False by (auto dest: in_set_takeD)
  next
    assume "CallRemoveAll dstDir \<in> set copied"
    with cc have "copy_call (CallRemoveAll dstDir :: 'e call)" by (auto simp: list_all_iff)
    then show False by simp
  qed
qed

text \<open>
  C9.  For an entry of the walk other than its root (the relative path is not
  \<^verbatim>\<open>.\<close>; the root is skipped whatever its type) whose type has the symlink bit, the
  function of \<^verbatim>\<open>copyDir\<close> makes exactly two calls: \<^verbatim>\<open>os.Readlink\<close> on the source
  path and, when it succeeds, \<^verbatim>\<open>os.Symlink\<close> of the very string read at the
  destination directory joined with the relative path.  Nothing else is called: the
  target is not looked up, opened or copied.  The walk does not descend into such an
  entry.  In the example the target \<^verbatim>\<open>../gone\<close> does not exist, and the link is
  recreated all the same.
\<close>

theorem symlink_recreated_with_same_target:
  assumes "filepath_Rel os srcDir path = Inr rel"
    and "rel \<noteq> ''.''"
    and "d_Type de AND ModeSymlink \<noteq> 0"
  shows "copyDir_fn os srcDir dstDir path (Some de) None (w, tr) =
           (case os_Readlink os path w of
              (Inl err, w1) \<Rightarrow> (Some err, (w1, tr @ [CallReadlink path]))
            | (Inr target, w1) \<Rightarrow>
                (fst (os_Symlink os target (filepath_Join os dstDir rel) w1),
                 (snd (os_Symlink os target (filepath_Join os dstDir rel) w1),
                  tr @ [CallReadlink path, CallSymlink target (filepath_Join os dstDir rel)])))
       \<and> (\<not> d_IsDir de \<longrightarrow>
            walkDir (Suc n) os (copyDir_fn os srcDir dstDir) path de (w, tr) =
              Some (copyDir_fn os srcDir dstDir path (Some de) None (w, tr)))"
  using assms
  by (auto simp: copyDir_fn_def copySymlink_def invoke_def split: prod.splits sum.splits option.splits)

subsection \<open>Examples of replications\<close>

lemma demo3_src: "(getWritableDir (bind_mount ''s'') :: string error + string) = Inr ''/s''"
  by (simp add: getWritableDir_def bind_mount_def)

lemma demo3_dst: "(getWritableDir (bind_mount ''c'') :: string error + string) = Inr ''/c''"
  by (simp add: getWritableDir_def bind_mount_def)

lemma demo3_readdir:
  "os_ReadDir demo_os ''/c'' demo_world3 =
     (([demo_entry ''/c/old'' ''old'' (FileNode 420 ''stale''),
        demo_entry ''/c/sub'' ''sub'' (DirNode 493)], None), demo_world3)"
  by (simp add: demo_os_def demo_world3_def child_name_def)

lemma demo4_rel: "filepath_Rel demo_os ''/s'' ''/s/l'' = Inr ''l''"
  by (simp add: demo_os_def)

lemma demo4_type: "d_Type (demo_entry ''/s/l'' ''l'' (LinkNode ''../gone'')) AND ModeSymlink \<noteq> 0"
  by (simp add: demo_entry_def node_mode_def ModeSymlink_def ModeDir_def)

theorem symlink_recreated_with_same_target_witness:
  "copyDir_fn demo_os ''/s'' ''/c'' ''/s/l''
     (Some (demo_entry ''/s/l'' ''l'' (LinkNode ''../gone''))) None (demo_world4, []) =
   (None,
    (demo_world4\<lparr>files := files demo_world4 @ [(''/c/l'', LinkNode ''../gone'')]\<rparr>,
     [CallReadlink ''/s/l'', CallSymlink ''../gone'' ''/c/l'']))
   \<and> map_option (\<lambda>(r, (w, tr)). (r, files w, tr))
        (copyDir (Suc (Suc 0)) demo_os ''/s'' ''/c'' (demo_world4, [])) =
      Some (None,
            [(''/s'', DirNode 493), (''/s/l'', LinkNode ''../gone''), (''/c'', DirNode 493),
             (''/c/l'', LinkNode ''../gone'')],
            [CallLstat ''/s'', CallReadDir ''/s'', CallReadlink ''/s/l'',
             CallSymlink ''../gone'' ''/c/l''])"
proof -
  have "''l'' \<noteq> ''.''" by simp
  from symlink_recreated_with_same_target[OF demo4_rel this demo4_type,
         where dstDir="''/c''" and w=demo_world4 and tr="[]" and n=0, THEN conjunct1]
  have one: "copyDir_fn demo_os ''/s'' ''/c'' ''/s/l''
     (Some (demo_entry ''/s/l'' ''l'' (LinkNode ''../gone''))) None (demo_world4, []) =
   (None,
    (demo_world4\<lparr>files := files demo_world4 @ [(''/c/l'', LinkNode ''../gone'')]\<rparr>,
     [CallReadlink ''/s/l'', CallSymlink ''../gone'' ''/c/l'']))"
    by (simp add: demo_os_def demo_world4_def fs_put_def parent_dir_def parent_exists_def)
  have two: "map_option (\<lambda>(r, (w, tr)). (r, files w, tr))
        (copyDir (Suc (Suc 0)) demo_os ''/s'' ''/c'' (demo_world4, [])) =
      Some (None,
            [(''/s'', DirNode 493), (''/s/l'', LinkNode ''../gone''), (''/c'', DirNode 493),
             (''/c/l'', LinkNode ''../gone'')],
            [CallLstat ''/s'', CallReadDir ''/s'', CallReadlink ''/s/l'',
             CallSymlink ''../gone'' ''/c/l''])"
    by (simp add: demo_defs demo_world4_def)
  from one two show ?thesis by simp
qed

section \<open>The clone path as one equation\<close>

lemma clonePrepare_unfold:
  "clonePrepare n s os key sourceKey opts (w, tr) =
     (case Stat s sourceKey w of
        (Inl e, w1) \<Rightarrow> Some (Inl (ErrStatSource sourceKey e), (w1, tr @ [CallStat sourceKey]))
      | (Inr sourceInfo, w1) \<Rightarrow>
          (case Mounts s sourceKey w1 of
             (Inl e, w2) \<Rightarrow>
               Some (Inl (ErrGetMounts sourceKey e),
                     (w2, tr @ [CallStat sourceKey, CallMounts sourceKey]))
           | (Inr sourceMounts, w2) \<Rightarrow>
               (case Prepare s key (Parent sourceInfo) (withoutLabel opts LabelCloneSource) w2 of
                  (Inl e, w3) \<Rightarrow>
                    Some (Inl (ErrPrepare key e),
                          (w3, tr @ [CallStat sourceKey, CallMounts sourceKey,
                                     CallPrepare key (Parent sourceInfo)
                                       (withoutLabel opts LabelCloneSource)]))
                | (Inr mounts, w3) \<Rightarrow>
                    (case copyWritableLayer n os sourceMounts mounts
                            (w3, tr @ [CallStat sourceKey, CallMounts sourceKey,
                                       CallPrepare key (Parent sourceInfo)
                                         (withoutLabel opts LabelCloneSource)]) of
                       None \<Rightarrow> None
                     | Some (Some err, (w4, tr4)) \<Rightarrow>
                         Some (Inl (case fst (Remove s key w4) of
                                      None \<Rightarrow> ErrCopy sourceKey key err
                                    | Some removeErr \<Rightarrow> ErrCopyCleanup err removeErr),
                               (snd (Remove s key w4), tr4 @ [CallRemove key]))
                     | Some (None, st4) \<Rightarrow> Some (Inr mounts, st4)))))"
proof -
  obtain rs w1 where st: "Stat s sourceKey w = (rs, w1)" by (cases "Stat s sourceKey w")
  show ?thesis
  proof (cases rs)
    case (Inl e)
    with st show ?thesis by (simp add: clonePrepare_stat_fails)
  next
    case si: (Inr si)
    obtain rm w2 where mo: "Mounts s sourceKey w1 = (rm, w2)" by (cases "Mounts s sourceKey w1")
    show ?thesis
    proof (cases rm)
      case (Inl e)
      with st si mo show ?thesis by (simp add: clonePrepare_mounts_fails)
    next
      case sm: (Inr sm)
      obtain rp w3 where pr:
        "Prepare s key (Parent si) (withoutLabel opts LabelCloneSource) w2 = (rp, w3)"
        by (cases "Prepare s key (Parent si) (withoutLabel opts LabelCloneSource) w2")
      show ?thesis
      proof (cases rp)
        case (Inl e)
        with st si mo sm pr show ?thesis by (simp add: clonePrepare_prepare_fails)
      next
        case (Inr ms)
        with st si mo sm pr show ?thesis
          by (simp add: clonePrepare_prepared split: option.splits prod.splits)
      qed
    qed
  qed
qed

text \<open>
  C1.  When the options resolve without error to labels that hold the clone directive,
  with the value \<open>sourceKey\<close>, \<^verbatim>\<open>Prepare\<close> does not depend on its parent argument:
  any two parents give the same result and the same state.  What it computes is this:
  the store's stat of the source key; when that succeeds, the store's mounts of the
  source key; when that succeeds, the store's prepare, called in the world the mounts
  left with the destination key, the parent of the info that the stat returned and the
  options of \<^verbatim>\<open>withoutLabel\<close>.  An error of that prepare ends the clone; on its
  success the replication runs in the world the prepare left, followed by the store's
  remove of the destination key when the replication fails.  Accordingly the calls made
  to the store are the stat, the mounts, that one prepare and at most one remove.
\<close>

theorem clone_calls_prepare_with_source_parent:
  assumes "applyOpts opts Info_zero = (None, info)"
    and "Labels info LabelCloneSource = Some sourceKey"
  shows "CloneSnapshotter_Prepare n s os key parent opts st =
           CloneSnapshotter_Prepare n s os key parent' opts st
       \<and> CloneSnapshotter_Prepare n s os key parent opts (w, tr) =
           (case Stat s sourceKey w of
        (Inl e, w1) \<Rightarrow> Some (Inl (ErrStatSource sourceKey e), (w1, tr @ [CallStat sourceKey]))
      | (Inr sourceInfo, w1) \<Rightarrow>
          (case Mounts s sourceKey w1 of
             (Inl e, w2) \<Rightarrow>
               Some (Inl (ErrGetMounts sourceKey e),
                     (w2, tr @ [CallStat sourceKey, CallMounts sourceKey]))
           | (Inr sourceMounts, w2) \<Rightarrow>
               (case Prepare s key (Parent sourceInfo) (withoutLabel opts LabelCloneSource) w2 of
                  (Inl e, w3) \<Rightarrow>
                    Some (Inl (ErrPrepare key e),
                          (w3, tr @ [CallStat sourceKey, CallMounts sourceKey,
                                     CallPrepare key (Parent sourceInfo)
                                       (withoutLabel opts LabelCloneSource)]))
                | (Inr mounts, w3) \<Rightarrow>
                    (case copyWritableLayer n os sourceMounts mounts
                            (w3, tr @ [CallStat sourceKey, CallMounts sourceKey,
                                       CallPrepare key (Parent sourceInfo)
                                         (withoutLabel opts LabelCloneSource)]) of
                       None \<Rightarrow> None
                     | Some (Some err, (w4, tr4)) \<Rightarrow>
                         Some (Inl (case fst (Remove s key w4) of
                                      None \<Rightarrow> ErrCopy sourceKey key err
                                    | Some removeErr \<Rightarrow> ErrCopyCleanup err removeErr),
                               (snd (Remove s key w4), tr4 @ [CallRemove key]))
                     | Some (None, st4) \<Rightarrow> Some (Inr mounts, st4)))))
       \<and> (\<forall>r w' tr'.
            CloneSnapshotter_Prepare n s os key parent opts (w, tr) = Some (r, (w', tr')) \<longrightarrow>
            (\<exists>new. tr' = tr @ new \<and>
               (case Stat s sourceKey w of
                  (Inl e, w1) \<Rightarrow> filter store_call new = [CallStat sourceKey]
                | (Inr sourceInfo, w1) \<Rightarrow>
                    (case Mounts s sourceKey w1 of
                       (Inl e, w2) \<Rightarrow>
                         filter store_call new = [CallStat sourceKey, CallMounts sourceKey]
                     | (Inr sourceMounts, w2) \<Rightarrow>
                         filter store_call new =
                           [CallStat sourceKey, CallMounts sourceKey,
                            CallPrepare key (Parent sourceInfo)
                              (withoutLabel opts LabelCloneSource)]
                         \<or> filter store_call new =
                           [CallStat sourceKey, CallMounts sourceKey,
                            CallPrepare key (Parent sourceInfo)
                              (withoutLabel opts LabelCloneSource),
                            CallRemove key]))))"
proof -
  have path: "CloneSnapshotter_Prepare n s os key p opts st' =
           clonePrepare n s os key sourceKey opts st'" for p st'
    using assms by (rule Prepare_clone_path)
  show ?thesis
    unfolding path
  proof (intro conjI allI impI)
    show "clonePrepare n s os key sourceKey opts st = clonePrepare n s os key sourceKey opts st"
      by (rule refl)
    show "clonePrepare n s os key sourceKey opts (w, tr) =
           (case Stat s sourceKey w of
        (Inl e, w1) \<Rightarrow> Some (Inl (ErrStatSource sourceKey e), (w1, tr @ [CallStat sourceKey]))
      | (Inr sourceInfo, w1) \<Rightarrow>
          (case Mounts s sourceKey w1 of
             (Inl e, w2) \<Rightarrow>
               Some (Inl (ErrGetMounts sourceKey e),
                     (w2, tr @ [CallStat sourceKey, CallMounts sourceKey]))
           | (Inr sourceMounts, w2) \<Rightarrow>
               (case Prepare s key (Parent sourceInfo) (withoutLabel opts LabelCloneSource) w2 of
                  (Inl e, w3) \<Rightarrow>
                    Some (Inl (ErrPrepare key e),
                          (w3, tr @ [CallStat sourceKey, CallMounts sourceKey,
                                     CallPrepare key (Parent sourceInfo)
                                       (withoutLabel opts LabelCloneSource)]))
                | (Inr mounts, w3) \<Rightarrow>
                    (case copyWritableLayer n os sourceMounts mounts
                            (w3, tr @ [CallStat sourceKey, CallMounts sourceKey,
                                       CallPrepare key (Parent sourceInfo)
                                         (withoutLabel opts LabelCloneSource)]) of
                       None \<Rightarrow> None
                     | Some (Some err, (w4, tr4)) \<Rightarrow>
                         Some (Inl (case fst (Remove s key w4) of
                                      None \<Rightarrow> ErrCopy sourceKey key err
                                    | Some removeErr \<Rightarrow> ErrCopyCleanup err removeErr),
                               (snd (Remove s key w4), tr4 @ [CallRemove key]))
                     | Some (None, st4) \<Rightarrow> Some (Inr mounts, st4)))))"
      by (rule clonePrepare_unfold)
    show "\<exists>new. tr' = tr @ new \<and>
               (case Stat s sourceKey w of
                  (Inl e, w1) \<Rightarrow> filter store_call new = [CallStat sourceKey]
                | (Inr sourceInfo, w1) \<Rightarrow>
                    (case Mounts s sourceKey w1 of
                       (Inl e, w2) \<Rightarrow>
                         filter store_call new = [CallStat sourceKey, CallMounts sourceKey]
                     | (Inr sourceMounts, w2) \<Rightarrow>
                         filter store_call new =
                           [CallStat sourceKey, CallMounts sourceKey,
                            CallPrepare key (Parent sourceInfo)
                              (withoutLabel opts LabelCloneSource)]
                         \<or> filter store_call new =
                           [CallStat sourceKey, CallMounts sourceKey,
                            CallPrepare key (Parent sourceInfo)
                              (withoutLabel opts LabelCloneSource),
                            CallRemove key]))"
      if "clonePrepare n s os key sourceKey opts (w, tr) = Some (r, (w', tr'))" for r w' tr'
      by (rule clonePrepare_calls[OF that])
  qed
qed

theorem clone_calls_prepare_with_source_parent_witness:
  "applyOpts demo_opts Info_zero = (None, Info_zero\<lparr>Labels := [LabelCloneSource \<mapsto> ''s'']\<rparr>)
   \<and> Labels (Info_zero\<lparr>Labels := [LabelCloneSource \<mapsto> ''s'']\<rparr>) LabelCloneSource = Some ''s''
   \<and> map_option (Parent \<circ> fst) (map_of (snaps demo_world0) ''s'') = Some ''base''
   \<and> map_option (\<lambda>(r, (w, tr)). (r, map (\<lambda>(k, i, ms). (k, Parent i)) (snaps w),
                                     filter store_call tr))
        (CloneSnapshotter_Prepare 3 (demo_store bind_mount False) demo_os ''c'' ''ignored'' demo_opts
          (demo_world0, [])) =
      Some (Inr (bind_mount ''c''), [(''c'', ''base''), (''s'', ''base'')],
            [CallStat ''s'', CallMounts ''s'',
             CallPrepare ''c'' ''base'' (withoutLabel demo_opts LabelCloneSource)])"
proof -
  have src: "map_option (Parent \<circ> fst) (map_of (snaps demo_world0) ''s'') = Some ''base''"
    by (simp add: demo_world0_def)
  have run: "map_option (\<lambda>(r, (w, tr)). (r, map (\<lambda>(k, i, ms). (k, Parent i)) (snaps w),
                                     filter store_call tr))
        (case Stat (demo_store bind_mount False) ''s'' demo_world0 of
        (Inl e, w1) \<Rightarrow> Some (Inl (ErrStatSource ''s'' e), (w1, [] @ [CallStat ''s'']))
      | (Inr sourceInfo, w1) \<Rightarrow>
          (case Mounts (demo_store bind_mount False) ''s'' w1 of
             (Inl e, w2) \<Rightarrow>
               Some (Inl (ErrGetMounts ''s'' e),
                     (w2, [] @ [CallStat ''s'', CallMounts ''s'']))
           | (Inr sourceMounts, w2) \<Rightarrow>
               (case Prepare (demo_store bind_mount False) ''c'' (Parent sourceInfo)
                       (withoutLabel demo_opts LabelCloneSource) w2 of
                  (Inl e, w3) \<Rightarrow>
                    Some (Inl (ErrPrepare ''c'' e),
                          (w3, [] @ [CallStat ''s'', CallMounts ''s'',
                                     CallPrepare ''c'' (Parent sourceInfo)
                                       (withoutLabel demo_opts LabelCloneSource)]))
                | (Inr mounts, w3) \<Rightarrow>
                    (case copyWritableLayer 3 demo_os sourceMounts mounts
                            (w3, [] @ [CallStat ''s'', CallMounts ''s'',
                                       CallPrepare ''c'' (Parent sourceInfo)
                                         (withoutLabel demo_opts LabelCloneSource)]) of
                       None \<Rightarrow> None
                     | Some (Some err, (w4, tr4)) \<Rightarrow>
                         Some (Inl (case fst (Remove (demo_store bind_mount False) ''c'' w4) of
                                      None \<Rightarrow> ErrCopy ''s'' ''c'' err
                                    | Some removeErr \<Rightarrow> ErrCopyCleanup err removeErr),
                               (snd (Remove (demo_store bind_mount False) ''c'' w4),
                                tr4 @ [CallRemove ''c'']))
                     | Some (None, st4) \<Rightarrow> Some (Inr mounts, st4))))) =
      Some (Inr (bind_mount ''c''), [(''c'', ''base''), (''s'', ''base'')],
            [CallStat ''s'', CallMounts ''s'',
             CallPrepare ''c'' ''base'' (withoutLabel demo_opts LabelCloneSource)])"
    by (simp add: demo_defs numeral_3_eq_3)
  from clone_calls_prepare_with_source_parent[OF demo_opts_resolved demo_opts_label,
      where n=3 and s="demo_store bind_mount False" and os=demo_os and key="''c''"
        and parent="''ignored''" and w=demo_world0 and tr="[]", THEN conjunct2, THEN conjunct1]
    demo_opts_resolved demo_opts_label src run
  show ?thesis by (simp only:)
qed

text \<open>
  C7, as amended.  Let the stat and the mounts of the source succeed.  When no writable
  directory is found in the source's mounts, the store's prepare of the destination is
  called all the same: if it fails, the clone fails with the prepare's error and no
  remove is called; if it succeeds, the clone fails after the destination snapshot was
  prepared, with an error that names the \<^verbatim>\<open>source:\<close> side, and the store's remove is
  called on the destination key.  When a writable directory is found in the source's
  mounts, the prepare succeeds and none is found in the mounts it returned, the clone
  fails after the prepare as well, with an error that names the \<^verbatim>\<open>destination:\<close>
  side, and the store's remove is called on the destination key.  In neither case is a
  call made to the operating system.
\<close>

theorem clone_unsupported_mounts_detected_after_prepare:
  fixes s :: "('e, 'w) Snapshotter"
  assumes "applyOpts opts Info_zero = (None, info)"
    and "Labels info LabelCloneSource = Some sourceKey"
    and "Stat s sourceKey w = (Inr sourceInfo, w1)"
    and "Mounts s sourceKey w1 = (Inr sourceMounts, w2)"
  shows "((getWritableDir sourceMounts :: 'e error + string) = Inl e \<longrightarrow>
           CloneSnapshotter_Prepare n s os key parent opts (w, tr) =
             (case Prepare s key (Parent sourceInfo) (withoutLabel opts LabelCloneSource) w2 of
                (Inl prepareErr, w3) \<Rightarrow>
                  Some (Inl (ErrPrepare key prepareErr),
                        (w3, tr @ [CallStat sourceKey, CallMounts sourceKey,
                                   CallPrepare key (Parent sourceInfo)
                                     (withoutLabel opts LabelCloneSource)]))
              | (Inr mounts, w3) \<Rightarrow>
                  Some (Inl (case fst (Remove s key w3) of
                               None \<Rightarrow> ErrCopy sourceKey key (ErrSource e)
                             | Some removeErr \<Rightarrow> ErrCopyCleanup (ErrSource e) removeErr),
                        (snd (Remove s key w3),
                         tr @ [CallStat sourceKey, CallMounts sourceKey,
                               CallPrepare key (Parent sourceInfo)
                                 (withoutLabel opts LabelCloneSource),
                               CallRemove key]))))
       \<and> ((getWritableDir sourceMounts :: 'e error + string) = Inr srcDir
            \<and> Prepare s key (Parent sourceInfo) (withoutLabel opts LabelCloneSource) w2 =
                (Inr mounts, w3)
            \<and> (getWritableDir mounts :: 'e error + string) = Inl e \<longrightarrow>
           CloneSnapshotter_Prepare n s os key parent opts (w, tr) =
             Some (Inl (case fst (Remove s key w3) of
                          None \<Rightarrow> ErrCopy sourceKey key (ErrDestination e)
                        | Some removeErr \<Rightarrow> ErrCopyCleanup (ErrDestination e) removeErr),
                   (snd (Remove s key w3),
                    tr @ [CallStat sourceKey, CallMounts sourceKey,
                          CallPrepare key (Parent sourceInfo)
                            (withoutLabel opts LabelCloneSource),
                          CallRemove key])))"
proof (intro conjI impI)
  let ?io = "withoutLabel opts LabelCloneSource"
  let ?c3 = "[CallStat sourceKey, CallMounts sourceKey, CallPrepare key (Parent sourceInfo) ?io]"
  note path = Prepare_clone_path[OF assms(1,2)]
  {
    assume src: "(getWritableDir sourceMounts :: 'e error + string) = Inl e"
    have cp: "copyWritableLayer n os sourceMounts ms st = Some (Some (ErrSource e), st)" for ms st
      using src by (simp add: copyWritableLayer_def)
    show "CloneSnapshotter_Prepare n s os key parent opts (w, tr) =
             (case Prepare s key (Parent sourceInfo) ?io w2 of
                (Inl prepareErr, w3) \<Rightarrow>
                  Some (Inl (ErrPrepare key prepareErr), (w3, tr @ ?c3))
              | (Inr mounts, w3) \<Rightarrow>
                  Some (Inl (case fst (Remove s key w3) of
                               None \<Rightarrow> ErrCopy sourceKey key (ErrSource e)
                             | Some removeErr \<Rightarrow> ErrCopyCleanup (ErrSource e) removeErr),
                        (snd (Remove s key w3),
                         tr @ [CallStat sourceKey, CallMounts sourceKey,
                               CallPrepare key (Parent sourceInfo) ?io, CallRemove key])))"
      by (simp add: path clonePrepare_unfold assms(3,4) cp split: prod.splits sum.splits)
  }
  {
    assume dst: "(getWritableDir sourceMounts :: 'e error + string) = Inr srcDir
            \<and> Prepare s key (Parent sourceInfo) ?io w2 = (Inr mounts, w3)
            \<and> (getWritableDir mounts :: 'e error + string) = Inl e"
    then have cp: "copyWritableLayer n os sourceMounts mounts st = Some (Some (ErrDestination e), st)"
      for st by (simp add: copyWritableLayer_def)
    from dst show "CloneSnapshotter_Prepare n s os key parent opts (w, tr) =
             Some (Inl (case fst (Remove s key w3) of
                          None \<Rightarrow> ErrCopy sourceKey key (ErrDestination e)
                        | Some removeErr \<Rightarrow> ErrCopyCleanup (ErrDestination e) removeErr),
                   (snd (Remove s key w3),
                    tr @ [CallStat sourceKey, CallMounts sourceKey,
                          CallPrepare key (Parent sourceInfo) ?io, CallRemove key]))"
      by (simp add: path clonePrepare_unfold assms(3,4) cp)
  }
qed

theorem clone_unsupported_mounts_detected_after_prepare_witness:
  "clone_outcome (CloneSnapshotter_Prepare 0 (demo_store bind_mount False) demo_os ''c'' [] demo_opts_t
        (demo_world2, [])) =
   Some (Inl (ErrCopy ''t'' ''c'' (ErrSource (ErrNoWritableDir ''tmpfs''))), [''t''],
         [CallStat ''t'', CallMounts ''t'',
          CallPrepare ''c'' ''base'' (withoutLabel demo_opts_t LabelCloneSource),
          CallRemove ''c''])
   \<and> clone_outcome (CloneSnapshotter_Prepare 0 (demo_store bind_mount False) demo_os ''t'' [] demo_opts_t
        (demo_world2, [])) =
   Some (Inl (ErrPrepare ''t'' (Ext ''already exists'')), [''t''],
         [CallStat ''t'', CallMounts ''t'',
          CallPrepare ''t'' ''base'' (withoutLabel demo_opts_t LabelCloneSource)])
   \<and> clone_outcome (CloneSnapshotter_Prepare 0 (demo_store tmpfs_mount False) demo_os ''c'' [] demo_opts
        (demo_world1, [])) =
   Some (Inl (ErrCopy ''s'' ''c'' (ErrDestination (ErrNoWritableDir ''tmpfs''))), [''s''],
         [CallStat ''s'', CallMounts ''s'',
          CallPrepare ''c'' ''base'' (withoutLabel demo_opts LabelCloneSource),
          CallRemove ''c''])"
proof -
  have src: "(getWritableDir (tmpfs_mount ''t'') :: string error + string) =
      Inl (ErrNoWritableDir ''tmpfs'')"
    by (simp add: getWritableDir_def tmpfs_mount_def joinMountTypes_def)
  have dst: "(getWritableDir (bind_mount ''s'') :: string error + string) = Inr ''/s''
       \<and> Prepare (demo_store tmpfs_mount False) ''c''
            (Parent (Info_zero\<lparr>Kind := KindActive, Name := ''s'', Parent := ''base''\<rparr>))
            (withoutLabel demo_opts LabelCloneSource) demo_world1 =
          (Inr (tmpfs_mount ''c''),
           snd (Prepare (demo_store tmpfs_mount False) ''c'' ''base''
                  (withoutLabel demo_opts LabelCloneSource) demo_world1))
       \<and> (getWritableDir (tmpfs_mount ''c'') :: string error + string) =
            Inl (ErrNoWritableDir ''tmpfs'')"
    using demo1_prepare_tmpfs[of False]
    by (simp add: getWritableDir_def tmpfs_mount_def bind_mount_def joinMountTypes_def)
  note t1 = clone_unsupported_mounts_detected_after_prepare[OF demo_opts_t_resolved
      demo_opts_t_label demo2_stat[of bind_mount False] demo2_mounts[of bind_mount False],
      THEN conjunct1, rule_format, OF src, where n=0 and os=demo_os and tr="[]"]
  note t3 = clone_unsupported_mounts_detected_after_prepare[OF demo_opts_resolved
      demo_opts_label demo1_stat'[of tmpfs_mount False] demo1_mounts'[of tmpfs_mount False],
      THEN conjunct2, rule_format, OF dst, where n=0 and os=demo_os and tr="[]"]
  show ?thesis
    unfolding clone_outcome_def t1 t3
    by (simp add: demo_store_def demo_world2_def demo_world1_def withoutLabel_def
          demo_opts_t_def demo_opts_def WithLabels_def Info_zero_def tmpfs_mount_def)
qed

section \<open>The options handed to the store\<close>

lemma applyOpts_spec_failed:
  "foldl (\<lambda>acc opt. case acc of (Some err, i) \<Rightarrow> (Some err, i) | (None, i) \<Rightarrow> opt i)
     (Some e, i) opts = (Some e, i)"
  by (induction opts) simp_all

lemma applyOpts_eq_spec: "applyOpts opts info = applyOpts_spec opts info"
proof (induction opts arbitrary: info)
  case Nil
  show ?case by (simp add: applyOpts_spec_def)
next
  case (Cons opt opts)
  obtain r info1 where o: "opt info = (r, info1)" by (cases "opt info")
  show ?case
  proof (cases r)
    case None
    with o Cons.IH[of info1] show ?thesis by (simp add: applyOpts_spec_def)
  next
    case (Some e)
    with o show ?thesis by (simp add: applyOpts_spec_def applyOpts_spec_failed)
  qed
qed

lemma applyOpts_append:
  "applyOpts (xs @ ys) info =
     (case applyOpts xs info of
        (Some err, info1) \<Rightarrow> (Some err, info1)
      | (None, info1) \<Rightarrow> applyOpts ys info1)"
  by (induction xs arbitrary: info) (auto split: prod.splits option.splits)

lemma withoutLabel_spec:
  "withoutLabel opts label =
     [\<lambda>info. case applyOpts_spec opts info of
               (Some err, info1) \<Rightarrow> (Some err, info1)
             | (None, info1) \<Rightarrow> (None, info1\<lparr>Labels := (Labels info1)(label := None)\<rparr>)]"
  by (simp add: withoutLabel_def applyOpts_eq_spec)

lemma withoutLabel_fn_ok:
  assumes "f \<in> set (withoutLabel opts label)" and "f info0 = (None, info')"
  shows "Labels info' label = None \<and>
         (\<exists>info1. applyOpts_spec opts info0 = (None, info1)
            \<and> (\<forall>k. k \<noteq> label \<longrightarrow> Labels info' k = Labels info1 k))"
proof -
  obtain r1 info1 where a: "applyOpts_spec opts info0 = (r1, info1)"
    by (cases "applyOpts_spec opts info0")
  from assms(1) have f: "f = (\<lambda>info. case applyOpts_spec opts info of
               (Some err, info1) \<Rightarrow> (Some err, info1)
             | (None, info1) \<Rightarrow> (None, info1\<lparr>Labels := (Labels info1)(label := None)\<rparr>))"
    by (simp add: withoutLabel_spec)
  show ?thesis
  proof (cases r1)
    case None
    with a assms(2) f show ?thesis by auto
  next
    case (Some e)
    with a assms(2) f show ?thesis by simp
  qed
qed

lemma withoutLabel_fn_err:
  assumes "f \<in> set (withoutLabel opts label)"
  shows "f info0 = (Some err, info') \<longleftrightarrow> applyOpts_spec opts info0 = (Some err, info')"
proof -
  obtain r1 info1 where a: "applyOpts_spec opts info0 = (r1, info1)"
    by (cases "applyOpts_spec opts info0")
  from assms(1) have f: "f = (\<lambda>info. case applyOpts_spec opts info of
               (Some err, info1) \<Rightarrow> (Some err, info1)
             | (None, info1) \<Rightarrow> (None, info1\<lparr>Labels := (Labels info1)(label := None)\<rparr>))"
    by (simp add: withoutLabel_spec)
  show ?thesis
  proof (cases r1)
    case None
    with a f show ?thesis by simp
  next
    case (Some e)
    with a f show ?thesis by simp
  qed
qed

lemma clone_hands_options:
  assumes "applyOpts opts Info_zero = (None, info)"
    and "Labels info LabelCloneSource = Some sourceKey"
    and "Stat s sourceKey w = (Inr sourceInfo, w1)"
    and "Mounts s sourceKey w1 = (Inr sourceMounts, w2)"
  shows "CloneSnapshotter_Prepare n s os key parent opts (w, tr) =
          (case Prepare s key (Parent sourceInfo) (withoutLabel opts LabelCloneSource) w2 of
              (Inl e, w3) \<Rightarrow>
                Some (Inl (ErrPrepare key e),
                      (w3, tr @ [CallStat sourceKey, CallMounts sourceKey,
                                 CallPrepare key (Parent sourceInfo)
                                   (withoutLabel opts LabelCloneSource)]))
            | (Inr mounts, w3) \<Rightarrow>
                (case copyWritableLayer n os sourceMounts mounts
                        (w3, tr @ [CallStat sourceKey, CallMounts sourceKey,
                                   CallPrepare key (Parent sourceInfo)
                                     (withoutLabel opts LabelCloneSource)]) of
                   None \<Rightarrow> None
                 | Some (Some err, (w4, tr4)) \<Rightarrow>
                     Some (Inl (case fst (Remove s key w4) of
                                  None \<Rightarrow> ErrCopy sourceKey key err
                                | Some removeErr \<Rightarrow> ErrCopyCleanup err removeErr),
                           (snd (Remove s key w4), tr4 @ [CallRemove key]))
                 | Some (None, st4) \<Rightarrow> Some (Inr mounts, st4)))"
  by (simp add: Prepare_clone_path[OF assms(1,2)] clonePrepare_unfold assms(3,4))

text \<open>
  C3.  The loop that applies the caller's options is the left fold of the
  specification: every option is applied, in the order of the list, each to the info
  that the one before it returned, until one fails.  It agrees with the fold on every
  list and every info, and running a list followed by another is running the first and,
  when it did not fail, the second on its result.  \<^verbatim>\<open>withoutLabel\<close> returns the
  single option that runs this fold and then deletes the label.  Whenever that option
  returns no error, the info it returns has no value for the label, whatever the
  caller's options set it to and whatever info the store starts from, and every other
  label is as the fold left it; it returns an error exactly when the fold does, with the
  same info.  On the clone path, when the stat and the mounts succeed, the store's
  prepare is called with the destination key and exactly this option list, and no other
  prepare is recorded.  The example after the theorem runs four options whose result
  depends on their order, the same with a failing option among them, and a clone on the
  example store, which persists the resolved labels: the new snapshot has the other
  labels and no clone directive.
\<close>

theorem withoutLabel_applies_all_then_strips:
  "applyOpts opts info0 = applyOpts_spec opts info0
   \<and> applyOpts (opts @ rest) info0 =
       (case applyOpts opts info0 of
          (Some err, info1) \<Rightarrow> (Some err, info1)
        | (None, info1) \<Rightarrow> applyOpts rest info1)
   \<and> withoutLabel opts label =
       [\<lambda>info. case applyOpts_spec opts info of
               (Some err, info1) \<Rightarrow> (Some err, info1)
             | (None, info1) \<Rightarrow> (None, info1\<lparr>Labels := (Labels info1)(label := None)\<rparr>)]
   \<and> (\<forall>f\<in>set (withoutLabel opts label). \<forall>info'. f info0 = (None, info') \<longrightarrow>
         Labels info' label = None
         \<and> (\<exists>info1. applyOpts_spec opts info0 = (None, info1)
               \<and> (\<forall>k. k \<noteq> label \<longrightarrow> Labels info' k = Labels info1 k)))
   \<and> (\<forall>f\<in>set (withoutLabel opts label). \<forall>err info'.
         f info0 = (Some err, info') \<longleftrightarrow> applyOpts_spec opts info0 = (Some err, info'))
   \<and> (applyOpts opts Info_zero = (None, info) \<and> Labels info LabelCloneSource = Some sourceKey
        \<and> Stat s sourceKey w = (Inr sourceInfo, w1)
        \<and> Mounts s sourceKey w1 = (Inr sourceMounts, w2) \<longrightarrow>
        CloneSnapshotter_Prepare n s os key parent opts (w, tr) =
          (case Prepare s key (Parent sourceInfo) (withoutLabel opts LabelCloneSource) w2 of
              (Inl e, w3) \<Rightarrow>
                Some (Inl (ErrPrepare key e),
                      (w3, tr @ [CallStat sourceKey, CallMounts sourceKey,
                                 CallPrepare key (Parent sourceInfo)
                                   (withoutLabel opts LabelCloneSource)]))
            | (Inr mounts, w3) \<Rightarrow>
                (case copyWritableLayer n os sourceMounts mounts
                        (w3, tr @ [CallStat sourceKey, CallMounts sourceKey,
                                   CallPrepare key (Parent sourceInfo)
                                     (withoutLabel opts LabelCloneSource)]) of
                   None \<Rightarrow> None
                 | Some (Some err, (w4, tr4)) \<Rightarrow>
                     Some (Inl (case fst (Remove s key w4) of
                                  None \<Rightarrow> ErrCopy sourceKey key err
                                | Some removeErr \<Rightarrow> ErrCopyCleanup err removeErr),
                           (snd (Remove s key w4), tr4 @ [CallRemove key]))
                 | Some (None, st4) \<Rightarrow> Some (Inr mounts, st4))))
   \<and> (applyOpts opts Info_zero = (None, info) \<and> Labels info LabelCloneSource = Some sourceKey
        \<and> CloneSnapshotter_Prepare n s os key parent opts (w, tr) = Some (r, (w', tr'))
        \<and> CallPrepare k p opts' \<in> set (drop (length tr) tr')
       \<longrightarrow> k = key \<and> opts' = withoutLabel opts LabelCloneSource)"
proof (intro conjI ballI allI impI)
  show "applyOpts opts info0 = applyOpts_spec opts info0" by (rule applyOpts_eq_spec)
  show "applyOpts (opts @ rest) info0 =
       (case applyOpts opts info0 of
          (Some err, info1) \<Rightarrow> (Some err, info1)
        | (None, info1) \<Rightarrow> applyOpts rest info1)" by (rule applyOpts_append)
  show "withoutLabel opts label =
       [\<lambda>info. case applyOpts_spec opts info of
               (Some err, info1) \<Rightarrow> (Some err, info1)
             | (None, info1) \<Rightarrow> (None, info1\<lparr>Labels := (Labels info1)(label := None)\<rparr>)]" by (rule withoutLabel_spec)
next
  fix f info' assume "f \<in> set (withoutLabel opts label)" "f info0 = (None, info')"
  from withoutLabel_fn_ok[OF this]
  show "Labels info' label = None"
    and "\<exists>info1. applyOpts_spec opts info0 = (None, info1)
               \<and> (\<forall>k. k \<noteq> label \<longrightarrow> Labels info' k = Labels info1 k)" by blast+
next
  fix f err info' assume "f \<in> set (withoutLabel opts label)"
  from withoutLabel_fn_err[OF this]
  show "f info0 = (Some err, info') \<longleftrightarrow> applyOpts_spec opts info0 = (Some err, info')" .
next
  assume a: "applyOpts opts Info_zero = (None, info) \<and> Labels info LabelCloneSource = Some sourceKey
        \<and> Stat s sourceKey w = (Inr sourceInfo, w1)
        \<and> Mounts s sourceKey w1 = (Inr sourceMounts, w2)"
  show "CloneSnapshotter_Prepare n s os key parent opts (w, tr) =
          (case Prepare s key (Parent sourceInfo) (withoutLabel opts LabelCloneSource) w2 of
              (Inl e, w3) \<Rightarrow>
                Some (Inl (ErrPrepare key e),
                      (w3, tr @ [CallStat sourceKey, CallMounts sourceKey,
                                 CallPrepare key (Parent sourceInfo)
                                   (withoutLabel opts LabelCloneSource)]))
            | (Inr mounts, w3) \<Rightarrow>
                (case copyWritableLayer n os sourceMounts mounts
                        (w3, tr @ [CallStat sourceKey, CallMounts sourceKey,
                                   CallPrepare key (Parent sourceInfo)
                                     (withoutLabel opts LabelCloneSource)]) of
                   None \<Rightarrow> None
                 | Some (Some err, (w4, tr4)) \<Rightarrow>
                     Some (Inl (case fst (Remove s key w4) of
                                  None \<Rightarrow> ErrCopy sourceKey key err
                                | Some removeErr \<Rightarrow> ErrCopyCleanup err removeErr),
                           (snd (Remove s key w4), tr4 @ [CallRemove key]))
                 | Some (None, st4) \<Rightarrow> Some (Inr mounts, st4)))"
    by (rule clone_hands_options) (use a in blast)+
next
  assume a: "applyOpts opts Info_zero = (None, info) \<and> Labels info LabelCloneSource = Some sourceKey
        \<and> CloneSnapshotter_Prepare n s os key parent opts (w, tr) = Some (r, (w', tr'))
        \<and> CallPrepare k p opts' \<in> set (drop (length tr) tr')"
  then have "clonePrepare n s os key sourceKey opts (w, tr) = Some (r, (w', tr'))"
    using Prepare_clone_path[of opts info sourceKey n s os key parent "(w, tr)"] by simp
  from clonePrepare_prepare_calls[OF this] a
  show "k = key" "opts' = withoutLabel opts LabelCloneSource" by blast+
qed

lemma demo_opts3_resolved:
  "applyOpts demo_opts3 Info_zero = (None, snd (applyOpts demo_opts3 Info_zero))"
  by (simp add: demo_opts3_def WithLabels_def setLabel_def)

lemma demo_opts3_label:
  "Labels (snd (applyOpts demo_opts3 Info_zero)) LabelCloneSource = Some ''s''"
  by (simp add: demo_opts3_def WithLabels_def setLabel_def LabelCloneSource_def)

theorem withoutLabel_applies_all_then_strips_witness:
  "fst (applyOpts demo_opts3 Info_zero) = None
   \<and> map (Labels (snd (applyOpts demo_opts3 Info_zero))) [LabelCloneSource, ''a'', ''b''] =
       [Some ''s'', Some ''2'', Some ''3'']
   \<and> map (\<lambda>f. (fst (f Info_zero), map (Labels (snd (f Info_zero))) [LabelCloneSource, ''a'', ''b'']))
        (withoutLabel demo_opts3 LabelCloneSource) =
       [(None, [None, Some ''2'', Some ''3''])]
   \<and> map (\<lambda>f. (fst (f Info_zero), map (Labels (snd (f Info_zero))) [LabelCloneSource, ''a'', ''b'']))
        (withoutLabel demo_opts3_failing LabelCloneSource) =
       [(Some (Ext ''bad option''), [Some ''x'', Some ''2'', None])]
   \<and> map_option (\<lambda>st. map_option
                         (\<lambda>(i, ms). (Parent i, map (Labels i) [LabelCloneSource, ''a'', ''b'']))
                         (map_of (snaps (fst (snd st))) ''c''))
       (CloneSnapshotter_Prepare 3 (demo_store bind_mount False) demo_os ''c'' [] demo_opts3
          (demo_world0, [])) =
     Some (Some (''base'', [None, Some ''2'', Some ''3'']))"
proof -
  note spec3 = withoutLabel_applies_all_then_strips[of demo_opts3 Info_zero _ LabelCloneSource,
      THEN conjunct2, THEN conjunct2, THEN conjunct1]
  note specf = withoutLabel_applies_all_then_strips[of demo_opts3_failing Info_zero _ LabelCloneSource,
      THEN conjunct2, THEN conjunct2, THEN conjunct1]
  have st: "Stat (demo_store bind_mount False) ''s'' demo_world0 =
      (Inr (Info_zero\<lparr>Kind := KindActive, Name := ''s'', Parent := ''base''\<rparr>), demo_world0)"
    by (simp add: demo_store_def demo_world0_def)
  have mo: "Mounts (demo_store bind_mount False) ''s'' demo_world0 =
      (Inr (bind_mount ''s''), demo_world0)"
    by (simp add: demo_store_def demo_world0_def)
  note run = withoutLabel_applies_all_then_strips[of demo_opts3 Info_zero _ LabelCloneSource,
      THEN conjunct2, THEN conjunct2, THEN conjunct2, THEN conjunct2, THEN conjunct2,
      THEN conjunct1, rule_format, OF conjI[OF demo_opts3_resolved conjI[OF demo_opts3_label
        conjI[OF st mo]]], where n=3 and os=demo_os and key="''c''" and tr="[]"]
  have a: "fst (applyOpts demo_opts3 Info_zero) = None
   \<and> map (Labels (snd (applyOpts demo_opts3 Info_zero))) [LabelCloneSource, ''a'', ''b''] =
       [Some ''s'', Some ''2'', Some ''3'']"
    by (simp add: demo_opts3_def WithLabels_def setLabel_def LabelCloneSource_def)
  have b: "map (\<lambda>f. (fst (f Info_zero), map (Labels (snd (f Info_zero))) [LabelCloneSource, ''a'', ''b'']))
        (withoutLabel demo_opts3 LabelCloneSource) =
       [(None, [None, Some ''2'', Some ''3''])]"
    unfolding spec3
    by (simp add: applyOpts_spec_def demo_opts3_def WithLabels_def setLabel_def LabelCloneSource_def)
  have c: "map (\<lambda>f. (fst (f Info_zero), map (Labels (snd (f Info_zero))) [LabelCloneSource, ''a'', ''b'']))
        (withoutLabel demo_opts3_failing LabelCloneSource) =
       [(Some (Ext ''bad option''), [Some ''x'', Some ''2'', None])]"
    unfolding specf
    by (simp add: applyOpts_spec_def demo_opts3_failing_def WithLabels_def setLabel_def
          failingOpt_def LabelCloneSource_def Info_zero_def)
  have d: "map_option (\<lambda>st. map_option
                         (\<lambda>(i, ms). (Parent i, map (Labels i) [LabelCloneSource, ''a'', ''b'']))
                         (map_of (snaps (fst (snd st))) ''c''))
       (CloneSnapshotter_Prepare 3 (demo_store bind_mount False) demo_os ''c'' [] demo_opts3
          (demo_world0, [])) =
     Some (Some (''base'', [None, Some ''2'', Some ''3'']))"
    unfolding run
    by (simp add: demo_defs demo_opts3_def setLabel_def numeral_3_eq_3)
  from a b c d show ?thesis by (simp only:)
qed

section \<open>Clearing before copying\<close>

lemma removed_world_Cons:
  "removed_world os dir (e # es) w =
     removed_world os dir es (snd (os_RemoveAll os (filepath_Join os dir (d_Name e)) w))"
  by (simp add: removed_world_def)

lemma removal_result_0:
  "removal_result os dir (e # es) 0 w = fst (os_RemoveAll os (filepath_Join os dir (d_Name e)) w)"
  by (simp add: removal_result_def removed_world_def)

lemma removal_result_Suc:
  "removal_result os dir (e # es) (Suc i) w =
     removal_result os dir es i (snd (os_RemoveAll os (filepath_Join os dir (d_Name e)) w))"
  by (simp add: removal_result_def removed_world_Cons)

lemma clearDir_entries_all_ok:
  "\<forall>i<length es. removal_result os dir es i w = None \<Longrightarrow>
   clearDir_entries os dir es (w, tr) =
     (None, (removed_world os dir es w, tr @ removal_calls os dir es))"
proof (induction es arbitrary: w tr)
  case Nil
  show ?case by (simp add: removed_world_def removal_calls_def)
next
  case (Cons e es)
  let ?p = "filepath_Join os dir (d_Name e)"
  obtain r w1 where rm: "os_RemoveAll os ?p w = (r, w1)" by (cases "os_RemoveAll os ?p w")
  from Cons.prems have "removal_result os dir (e # es) 0 w = None" by blast
  with rm have r: "r = None" by (simp add: removal_result_0)
  have "\<forall>i<length es. removal_result os dir es i w1 = None"
  proof (intro allI impI)
    fix i assume "i < length es"
    then have "Suc i < length (e # es)" by simp
    with Cons.prems have "removal_result os dir (e # es) (Suc i) w = None" by blast
    with rm show "removal_result os dir es i w1 = None" by (simp add: removal_result_Suc)
  qed
  from Cons.IH[OF this, of "tr @ [CallRemoveAll ?p]"] rm r
  show ?case by (simp add: invoke_eq removed_world_Cons removal_calls_def)
qed

lemma clearDir_entries_first_error:
  "j < length es \<Longrightarrow> \<forall>i<j. removal_result os dir es i w = None \<Longrightarrow>
   removal_result os dir es j w = Some err \<Longrightarrow>
   clearDir_entries os dir es (w, tr) =
     (Some err, (removed_world os dir (take (Suc j) es) w,
                 tr @ removal_calls os dir (take (Suc j) es)))"
proof (induction es arbitrary: j w tr)
  case Nil
  then show ?case by simp
next
  case (Cons e es)
  let ?p = "filepath_Join os dir (d_Name e)"
  obtain r w1 where rm: "os_RemoveAll os ?p w = (r, w1)" by (cases "os_RemoveAll os ?p w")
  show ?case
  proof (cases j)
    case 0
    with Cons.prems(3) rm have "r = Some err" by (simp add: removal_result_0)
    with rm 0 show ?thesis
      by (simp add: invoke_eq removed_world_def removal_calls_def)
  next
    case (Suc j')
    with Cons.prems(2) have "removal_result os dir (e # es) 0 w = None" by blast
    with rm have r: "r = None" by (simp add: removal_result_0)
    from Suc Cons.prems(1) have j': "j' < length es" by simp
    have ok: "\<forall>i<j'. removal_result os dir es i w1 = None"
    proof (intro allI impI)
      fix i assume "i < j'"
      with Suc have "Suc i < j" by simp
      with Cons.prems(2) have "removal_result os dir (e # es) (Suc i) w = None" by blast
      with rm show "removal_result os dir es i w1 = None" by (simp add: removal_result_Suc)
    qed
    from Cons.prems(3) Suc rm have bad: "removal_result os dir es j' w1 = Some err"
      by (simp add: removal_result_Suc)
    from Cons.IH[OF j' ok bad, of "tr @ [CallRemoveAll ?p]"] rm r Suc
    show ?thesis by (simp add: invoke_eq removed_world_Cons removal_calls_def)
  qed
qed

lemma clearDir_read_error:
  "os_ReadDir os dir w = ((es, Some err), w1) \<Longrightarrow> \<not> os_IsNotExist os err \<Longrightarrow>
     clearDir os dir (w, tr) = (Some err, (w1, tr @ [CallReadDir dir]))"
  by (simp add: clearDir_def invoke_def)

lemma clearDir_read_ok:
  "os_ReadDir os dir w = ((es, None), w1) \<Longrightarrow>
     clearDir os dir (w, tr) = clearDir_entries os dir es (w1, tr @ [CallReadDir dir])"
  by (simp add: clearDir_def invoke_def)

text \<open>
  C8.  Let both writable directories be found, and let the read of the destination
  directory return the entries \<open>entries\<close> and the error \<open>rerr\<close>.  When the read fails
  with a not-exist error, nothing is removed and the replication is the copy, started
  right after the read: clearing a directory that does not exist is not an error.  When
  the read fails with another error, the replication returns that error wrapped as
  \<^verbatim>\<open>clear destination\<close> and the copy is not started.  When the read succeeds and
  every \<^verbatim>\<open>os.RemoveAll\<close> succeeds, the replication is the copy, started in the world
  in which every child read has been removed, in the order read, after the calls of all
  these removals.  When the read succeeds and a removal fails, the replication returns
  the first such error wrapped as \<^verbatim>\<open>clear destination\<close>, after the removals up to
  and including the failing one, and the copy is not started.  The copy makes no call
  of \<^verbatim>\<open>os.RemoveAll\<close>, so the destination directory itself is never passed to
  \<^verbatim>\<open>os.RemoveAll\<close> (no child path being the directory's own), and the copy makes no
  call for the root of the walk, so it does not create the destination directory anew.
\<close>

theorem replication_clears_then_copies:
  fixes os :: "('e, 'w) OS"
  assumes src: "(getWritableDir srcMounts :: 'e error + string) = Inr srcDir"
    and dst: "(getWritableDir dstMounts :: 'e error + string) = Inr dstDir"
    and rd: "os_ReadDir os dstDir w = ((entries, rerr), w1)"
  shows
   "(\<forall>err. rerr = Some err \<and> os_IsNotExist os err \<longrightarrow>
        copyWritableLayer n os srcMounts dstMounts (w, tr) =
          copyDir n os srcDir dstDir (w1, tr @ [CallReadDir dstDir]))
    \<and> (\<forall>err. rerr = Some err \<and> \<not> os_IsNotExist os err \<longrightarrow>
        copyWritableLayer n os srcMounts dstMounts (w, tr) =
          Some (Some (ErrClearDst err), (w1, tr @ [CallReadDir dstDir])))
    \<and> (rerr = None \<and> (\<forall>i<length entries. removal_result os dstDir entries i w1 = None) \<longrightarrow>
        copyWritableLayer n os srcMounts dstMounts (w, tr) =
          copyDir n os srcDir dstDir
            (removed_world os dstDir entries w1,
             tr @ CallReadDir dstDir # removal_calls os dstDir entries))
    \<and> (\<forall>j err. rerr = None \<and> j < length entries
          \<and> (\<forall>i<j. removal_result os dstDir entries i w1 = None)
          \<and> removal_result os dstDir entries j w1 = Some err \<longrightarrow>
        copyWritableLayer n os srcMounts dstMounts (w, tr) =
          Some (Some (ErrClearDst err),
                (removed_world os dstDir (take (Suc j) entries) w1,
                 tr @ CallReadDir dstDir # removal_calls os dstDir (take (Suc j) entries))))
    \<and> (\<forall>st r st'. copyDir n os srcDir dstDir st = Some (r, st') \<longrightarrow>
          (\<exists>copied. snd st' = snd st @ copied \<and> list_all copy_call copied))
    \<and> (\<forall>r w' tr'. copyWritableLayer n os srcMounts dstMounts (w, tr) = Some (r, (w', tr'))
          \<and> (\<forall>e\<in>set entries. filepath_Join os dstDir (d_Name e) \<noteq> dstDir) \<longrightarrow>
          CallRemoveAll dstDir \<notin> set (drop (length tr) tr'))
    \<and> (\<forall>path d st. filepath_Rel os srcDir path = Inr ''.'' \<longrightarrow>
          copyDir_fn os srcDir dstDir path d None st = (None, st))"
proof (intro conjI allI impI)
  note a = copyWritableLayer_dirs[OF src dst, of n os "(w, tr)"]
  show "copyWritableLayer n os srcMounts dstMounts (w, tr) =
          copyDir n os srcDir dstDir (w1, tr @ [CallReadDir dstDir])"
    if "rerr = Some err \<and> os_IsNotExist os err" for err
    using that rd a by (simp add: clearDir_missing)
  show "copyWritableLayer n os srcMounts dstMounts (w, tr) =
          Some (Some (ErrClearDst err), (w1, tr @ [CallReadDir dstDir]))"
    if "rerr = Some err \<and> \<not> os_IsNotExist os err" for err
    using that rd a by (simp add: clearDir_read_error)
  show "copyWritableLayer n os srcMounts dstMounts (w, tr) =
          copyDir n os srcDir dstDir
            (removed_world os dstDir entries w1,
             tr @ CallReadDir dstDir # removal_calls os dstDir entries)"
    if h: "rerr = None \<and> (\<forall>i<length entries. removal_result os dstDir entries i w1 = None)"
  proof -
    from h rd have "clearDir os dstDir (w, tr) =
        clearDir_entries os dstDir entries (w1, tr @ [CallReadDir dstDir])"
      by (simp add: clearDir_read_ok)
    also from h have "\<dots> = (None, (removed_world os dstDir entries w1,
        (tr @ [CallReadDir dstDir]) @ removal_calls os dstDir entries))"
      by (intro clearDir_entries_all_ok) blast
    finally show ?thesis using a by simp
  qed
  show "copyWritableLayer n os srcMounts dstMounts (w, tr) =
          Some (Some (ErrClearDst err),
                (removed_world os dstDir (take (Suc j) entries) w1,
                 tr @ CallReadDir dstDir # removal_calls os dstDir (take (Suc j) entries)))"
    if h: "rerr = None \<and> j < length entries
          \<and> (\<forall>i<j. removal_result os dstDir entries i w1 = None)
          \<and> removal_result os dstDir entries j w1 = Some err" for j err
  proof -
    from h rd have "clearDir os dstDir (w, tr) =
        clearDir_entries os dstDir entries (w1, tr @ [CallReadDir dstDir])"
      by (simp add: clearDir_read_ok)
    also from h have "\<dots> = (Some err, (removed_world os dstDir (take (Suc j) entries) w1,
        (tr @ [CallReadDir dstDir]) @ removal_calls os dstDir (take (Suc j) entries)))"
      by (intro clearDir_entries_first_error) blast+
    finally show ?thesis using a by simp
  qed
  show "\<exists>copied. snd st' = snd st @ copied \<and> list_all copy_call copied"
    if "copyDir n os srcDir dstDir st = Some (r, st')" for st r st'
    using copyDir_grows[OF that] by (simp add: grows_def)
  show "CallRemoveAll dstDir \<notin> set (drop (length tr) tr')"
    if "copyWritableLayer n os srcMounts dstMounts (w, tr) = Some (r, (w', tr'))
          \<and> (\<forall>e\<in>set entries. filepath_Join os dstDir (d_Name e) \<noteq> dstDir)" for r w' tr'
    by (rule copyWritableLayer_keeps_dir[OF src dst rd]) (use that in blast)+
  show "copyDir_fn os srcDir dstDir path d None st = (None, st)"
    if "filepath_Rel os srcDir path = Inr ''.''" for path d st
    using that by (simp add: copyDir_fn_def)
qed

lemma demo3_file: "(getWritableDir (bind_mount ''s/a'') :: string error + string) = Inr ''/s/a''"
  by (simp add: getWritableDir_def bind_mount_def)

lemma demo3_readdir_file:
  "os_ReadDir demo_os ''/s/a'' demo_world3 = (([], Some (Ext ''not a directory'')), demo_world3)"
  by (simp add: demo_os_def demo_world3_def)

lemma demo3_readdir_denied:
  "os_ReadDir demo_os_denied ''/c'' demo_world3 =
     (([demo_entry ''/c/old'' ''old'' (FileNode 420 ''stale''),
        demo_entry ''/c/sub'' ''sub'' (DirNode 493)], None), demo_world3)"
  by (simp add: demo_os_denied_def demo_os_def demo_world3_def child_name_def)

lemma demo5_readdir:
  "os_ReadDir demo_os ''/c'' demo_world5 =
     (([], Some (Ext ''no such file or directory'')), demo_world5)"
  by (simp add: demo_os_def demo_world5_def)

lemma demo3_removals_ok:
  "None = (None :: string error option)
   \<and> (\<forall>i<length [demo_entry ''/c/old'' ''old'' (FileNode 420 ''stale''),
                   demo_entry ''/c/sub'' ''sub'' (DirNode 493)].
         removal_result demo_os ''/c''
           [demo_entry ''/c/old'' ''old'' (FileNode 420 ''stale''),
            demo_entry ''/c/sub'' ''sub'' (DirNode 493)] i demo_world3 = None)"
  by (simp add: removal_result_def demo_os_def)

lemma demo3_removal_denied:
  "None = (None :: string error option)
   \<and> Suc 0 < length [demo_entry ''/c/old'' ''old'' (FileNode 420 ''stale''),
                     demo_entry ''/c/sub'' ''sub'' (DirNode 493)]
   \<and> (\<forall>i<Suc 0. removal_result demo_os_denied ''/c''
           [demo_entry ''/c/old'' ''old'' (FileNode 420 ''stale''),
            demo_entry ''/c/sub'' ''sub'' (DirNode 493)] i demo_world3 = None)
   \<and> removal_result demo_os_denied ''/c''
           [demo_entry ''/c/old'' ''old'' (FileNode 420 ''stale''),
            demo_entry ''/c/sub'' ''sub'' (DirNode 493)] (Suc 0) demo_world3 =
         Some (Ext ''permission denied'')"
  by (simp add: removal_result_def removed_world_def demo_os_denied_def demo_os_def demo_entry_def)

theorem replication_clears_then_copies_witness:
  "map_option (\<lambda>(r, (w, tr)). (r, files w, tr))
     (copyWritableLayer (Suc (Suc 0)) demo_os (bind_mount ''s'') (bind_mount ''c'') (demo_world3, [])) =
   Some (None,
         [(''/s'', DirNode 493), (''/s/a'', FileNode 420 ''hello''), (''/c'', DirNode 493),
          (''/c/a'', FileNode 420 ''hello'')],
         [CallReadDir ''/c'', CallRemoveAll ''/c/old'', CallRemoveAll ''/c/sub'',
          CallLstat ''/s'', CallReadDir ''/s'', CallInfo ''/s/a'', CallOpen ''/s/a'',
          CallOpenFile ''/c/a'' 577 420, CallCopy 1 0, CallClose 1, CallClose 0])
   \<and> map_option (\<lambda>(r, (w, tr)). (r, files w, tr))
     (copyWritableLayer (Suc (Suc 0)) demo_os (bind_mount ''s'') (bind_mount ''c'') (demo_world5, [])) =
   Some (None, [(''/s'', DirNode 493)],
         [CallReadDir ''/c'', CallLstat ''/s'', CallReadDir ''/s''])
   \<and> map_option (\<lambda>(r, (w, tr)). (r, files w, tr))
     (copyWritableLayer (Suc (Suc 0)) demo_os (bind_mount ''s'') (bind_mount ''s/a'') (demo_world3, [])) =
   Some (Some (ErrClearDst (Ext ''not a directory'')),
         [(''/s'', DirNode 493), (''/s/a'', FileNode 420 ''hello''), (''/c'', DirNode 493),
          (''/c/old'', FileNode 420 ''stale''), (''/c/sub'', DirNode 493),
          (''/c/sub/x'', FileNode 420 ''y'')],
         [CallReadDir ''/s/a''])
   \<and> map_option (\<lambda>(r, (w, tr)). (r, files w, tr))
     (copyWritableLayer (Suc (Suc 0)) demo_os_denied (bind_mount ''s'') (bind_mount ''c'')
        (demo_world3, [])) =
   Some (Some (ErrClearDst (Ext ''permission denied'')),
         [(''/s'', DirNode 493), (''/s/a'', FileNode 420 ''hello''), (''/c'', DirNode 493),
          (''/c/sub'', DirNode 493), (''/c/sub/x'', FileNode 420 ''y'')],
         [CallReadDir ''/c'', CallRemoveAll ''/c/old'', CallRemoveAll ''/c/sub''])"
proof -
  have ne: "os_IsNotExist demo_os (Ext ''no such file or directory'')"
    "\<not> os_IsNotExist demo_os (Ext ''not a directory'')"
    by (simp_all add: demo_os_def)
  note ok = replication_clears_then_copies[OF demo3_src demo3_dst demo3_readdir,
      of "Suc (Suc 0)" "[]", THEN conjunct2, THEN conjunct2, THEN conjunct1, THEN mp,
      OF demo3_removals_ok]
  note missing = replication_clears_then_copies[OF demo3_src demo3_dst demo5_readdir,
      of "Suc (Suc 0)" "[]", THEN conjunct1, rule_format, OF conjI[OF refl ne(1)]]
  note unreadable = replication_clears_then_copies[OF demo3_src demo3_file demo3_readdir_file,
      of "Suc (Suc 0)" "[]", THEN conjunct2, THEN conjunct1, rule_format, OF conjI[OF refl ne(2)]]
  note denied = replication_clears_then_copies[OF demo3_src demo3_dst demo3_readdir_denied,
      of "Suc (Suc 0)" "[]", THEN conjunct2, THEN conjunct2, THEN conjunct2, THEN conjunct1,
      rule_format, OF demo3_removal_denied]
  have a: "map_option (\<lambda>(r, (w, tr)). (r, files w, tr))
     (copyWritableLayer (Suc (Suc 0)) demo_os (bind_mount ''s'') (bind_mount ''c'') (demo_world3, [])) =
   Some (None,
         [(''/s'', DirNode 493), (''/s/a'', FileNode 420 ''hello''), (''/c'', DirNode 493),
          (''/c/a'', FileNode 420 ''hello'')],
         [CallReadDir ''/c'', CallRemoveAll ''/c/old'', CallRemoveAll ''/c/sub'',
          CallLstat ''/s'', CallReadDir ''/s'', CallInfo ''/s/a'', CallOpen ''/s/a'',
          CallOpenFile ''/c/a'' 577 420, CallCopy 1 0, CallClose 1, CallClose 0])"
    unfolding ok
    by (simp add: demo_defs demo_world3_def removed_world_def removal_calls_def
          O_CREATE_def O_WRONLY_def O_TRUNC_def)
  have b: "map_option (\<lambda>(r, (w, tr)). (r, files w, tr))
     (copyWritableLayer (Suc (Suc 0)) demo_os (bind_mount ''s'') (bind_mount ''c'') (demo_world5, [])) =
   Some (None, [(''/s'', DirNode 493)],
         [CallReadDir ''/c'', CallLstat ''/s'', CallReadDir ''/s''])"
    unfolding missing
    by (simp add: demo_defs demo_world5_def)
  have c: "map_option (\<lambda>(r, (w, tr)). (r, files w, tr))
     (copyWritableLayer (Suc (Suc 0)) demo_os (bind_mount ''s'') (bind_mount ''s/a'') (demo_world3, [])) =
   Some (Some (ErrClearDst (Ext ''not a directory'')),
         [(''/s'', DirNode 493), (''/s/a'', FileNode 420 ''hello''), (''/c'', DirNode 493),
          (''/c/old'', FileNode 420 ''stale''), (''/c/sub'', DirNode 493),
          (''/c/sub/x'', FileNode 420 ''y'')],
         [CallReadDir ''/s/a''])"
    unfolding unreadable by (simp add: demo_world3_def)
  have d: "map_option (\<lambda>(r, (w, tr)). (r, files w, tr))
     (copyWritableLayer (Suc (Suc 0)) demo_os_denied (bind_mount ''s'') (bind_mount ''c'')
        (demo_world3, [])) =
   Some (Some (ErrClearDst (Ext ''permission denied'')),
         [(''/s'', DirNode 493), (''/s/a'', FileNode 420 ''hello''), (''/c'', DirNode 493),
          (''/c/sub'', DirNode 493), (''/c/sub/x'', FileNode 420 ''y'')],
         [CallReadDir ''/c'', CallRemoveAll ''/c/old'', CallRemoveAll ''/c/sub''])"
    unfolding denied
    by (simp add: demo_os_denied_def demo_os_def demo_world3_def removed_world_def
          removal_calls_def demo_entry_def)
  from a b c d show ?thesis by (simp only:)
qed

end
